theory Spec2Isabelle
  imports Complex_Main "HOL-Library.Monad_Syntax"
begin

section \<open>Data model (types.ts)\<close>

text \<open>
  JavaScript numbers are modelled as mathematical reals (coordinates, progress, velocity)
  and as integers where the program only ever stores integers (millisecond timestamps from
  \<^verbatim>\<open>Date.now()\<close>, hit points). Rounding and NaN are outside this model.
  A thrown \<^verbatim>\<open>TypeError\<close> (reading a coordinate of \<^verbatim>\<open>undefined\<close>, which is what
  an out-of-range array read yields) is the value \<open>None\<close>.
\<close>

record Vector2 =
  x :: real
  y :: real

text \<open>A landmark is \<^verbatim>\<open>{x, y, z}\<close>; it is passed wherever a \<^verbatim>\<open>Vector2\<close> is expected.\<close>

record Landmark = Vector2 +
  z :: real

datatype Handedness = Left | Right

datatype GameMode = SOLO | DUEL

datatype GameState =
    IDLE | HILT_FORMING | CASTING | ACTIVE | DISSOLVING
  | DUEL_WAITING | DUEL_BOWING | DUEL_FIGHTING | DUEL_ENDED

record HandData =
  landmarks :: "Landmark list"
  handedness :: Handedness
  worldLandmarks :: "Landmark list option"

record TrailEntry =
  tip :: Vector2
  base :: Vector2
  color :: string

record DuelPlayerState =
  id_player :: nat
  hp :: int
  maxHp :: int
  saberColor :: string
  swordState :: GameState
  swordProgress :: real
  swordHand :: "Handedness option"
  lastFistTime :: int
  velocity :: real
  prevHandPos :: "Vector2 option"
  trail :: "TrailEntry list"
  lastHitTime :: int

section \<open>Geometry kernel (utils/geometry.ts)\<close>

definition getDistance :: "'a Vector2_scheme \<Rightarrow> 'b Vector2_scheme \<Rightarrow> real" where
  "getDistance p1 p2 = sqrt ((x p2 - x p1)\<^sup>2 + (y p2 - y p1)\<^sup>2)"

definition normalizeVector :: "'a Vector2_scheme \<Rightarrow> Vector2" where
  "normalizeVector v =
     (let len = sqrt (x v * x v + y v * y v)
      in if len = 0 then \<lparr>x = 0, y = 0\<rparr> else \<lparr>x = x v / len, y = y v / len\<rparr>)"

definition scaleVector :: "'a Vector2_scheme \<Rightarrow> real \<Rightarrow> Vector2" where
  "scaleVector v s = \<lparr>x = x v * s, y = y v * s\<rparr>"

definition addVector :: "'a Vector2_scheme \<Rightarrow> 'b Vector2_scheme \<Rightarrow> Vector2" where
  "addVector v1 v2 = \<lparr>x = x v1 + x v2, y = y v1 + y v2\<rparr>"

definition subVector :: "'a Vector2_scheme \<Rightarrow> 'b Vector2_scheme \<Rightarrow> Vector2" where
  "subVector v1 v2 = \<lparr>x = x v1 - x v2, y = y v1 - y v2\<rparr>"

text \<open>\<^verbatim>\<open>hand.landmarks[i]\<close>: \<open>None\<close> stands for \<^verbatim>\<open>undefined\<close>, whose coordinates
  cannot be read.\<close>

definition landmark :: "HandData \<Rightarrow> nat \<Rightarrow> Landmark option" where
  "landmark hand i = (if i < length (landmarks hand) then Some (landmarks hand ! i) else None)"

text \<open>The finger table of \<^verbatim>\<open>isFist\<close>: \<^verbatim>\<open>{tip, pip}\<close> for index, middle, ring, pinky.\<close>

record Finger =
  tipIdx :: nat
  pipIdx :: nat

definition fingers :: "Finger list" where
  "fingers =
     [\<lparr>tipIdx = 8, pipIdx = 6\<rparr>, \<lparr>tipIdx = 12, pipIdx = 10\<rparr>,
      \<lparr>tipIdx = 16, pipIdx = 14\<rparr>, \<lparr>tipIdx = 20, pipIdx = 18\<rparr>]"

text \<open>The body of the \<^verbatim>\<open>forEach\<close> callback: does finger \<open>f\<close> count as curled.\<close>

definition fingerCurled :: "HandData \<Rightarrow> Finger \<Rightarrow> bool option" where
  "fingerCurled hand f =
     do {
       wrist \<leftarrow> landmark hand 0;
       tipL \<leftarrow> landmark hand (tipIdx f);
       pipL \<leftarrow> landmark hand (pipIdx f);
       mcpL \<leftarrow> landmark hand (pipIdx f - 1);
       let distTip = getDistance tipL wrist;
       let distPip = getDistance pipL wrist;
       let distMcp = getDistance mcpL wrist;
       Some (distTip < distPip \<or> distTip < distMcp * 1.2)
     }"

fun curledCount :: "HandData \<Rightarrow> Finger list \<Rightarrow> nat \<Rightarrow> nat option" where
  "curledCount hand [] c = Some c"
| "curledCount hand (f # fs) c =
     (case fingerCurled hand f of
        None \<Rightarrow> None
      | Some b \<Rightarrow> curledCount hand fs (if b then c + 1 else c))"

definition isFist :: "HandData \<Rightarrow> bool option" where
  "isFist hand = map_option (\<lambda>c. c \<ge> 3) (curledCount hand fingers 0)"

definition getHandCenter :: "HandData \<Rightarrow> Vector2 option" where
  "getHandCenter hand =
     do {
       wrist \<leftarrow> landmark hand 0;
       indexMCP \<leftarrow> landmark hand 5;
       pinkyMCP \<leftarrow> landmark hand 17;
       Some \<lparr>x = (x wrist + x indexMCP + x pinkyMCP) / 3,
             y = (y wrist + y indexMCP + y pinkyMCP) / 3\<rparr>
     }"

definition getSwordDirection :: "HandData \<Rightarrow> Vector2 option" where
  "getSwordDirection hand =
     do {
       wrist \<leftarrow> landmark hand 0;
       indexMCP \<leftarrow> landmark hand 5;
       middleMCP \<leftarrow> landmark hand 9;
       let topCenter = \<lparr>x = (x indexMCP + x middleMCP) / 2, y = (y indexMCP + y middleMCP) / 2\<rparr>;
       let v = \<lparr>x = x topCenter - x wrist, y = y topCenter - y wrist\<rparr>;
       Some (normalizeVector v)
     }"

record GripPoints =
  hiltBottom :: Vector2
  hiltTop :: Vector2
  direction :: Vector2

definition getGripPoints :: "HandData \<Rightarrow> GripPoints option" where
  "getGripPoints hand =
     do {
       wrist \<leftarrow> landmark hand 0;
       indexMCP \<leftarrow> landmark hand 5;
       middleMCP \<leftarrow> landmark hand 9;
       dir \<leftarrow> getSwordDirection hand;
       let knuckleCenter =
         \<lparr>x = (x indexMCP + x middleMCP) / 2, y = (y indexMCP + y middleMCP) / 2\<rparr>;
       let hTop = addVector knuckleCenter (scaleVector dir 0.05);
       let hBottom = subVector wrist (scaleVector dir 0.02);
       Some \<lparr>hiltBottom = hBottom, hiltTop = hTop, direction = dir\<rparr>
     }"

section \<open>Collision helpers (top of the component file)\<close>

definition distToSegment :: "Vector2 \<Rightarrow> Vector2 \<Rightarrow> Vector2 \<Rightarrow> real" where
  "distToSegment p v w =
     (let l2 = (x w - x v)\<^sup>2 + (y w - y v)\<^sup>2
      in if l2 = 0 then sqrt ((x p - x v)\<^sup>2 + (y p - y v)\<^sup>2)
         else
           let t = ((x p - x v) * (x w - x v) + (y p - y v) * (y w - y v)) / l2;
               t = max 0 (min 1 t);
               px = x v + t * (x w - x v);
               py = y v + t * (y w - y v)
           in sqrt ((x p - px)\<^sup>2 + (y p - py)\<^sup>2))"

text \<open>The inner helper \<^verbatim>\<open>lineLine\<close> of \<^verbatim>\<open>lineRectCollide\<close>; it captures nothing.\<close>

definition lineLine ::
  "real \<Rightarrow> real \<Rightarrow> real \<Rightarrow> real \<Rightarrow> real \<Rightarrow> real \<Rightarrow> real \<Rightarrow> real \<Rightarrow> bool" where
  "lineLine x1 y1 x2 y2 x3 y3 x4 y4 =
     (let denom = (y4 - y3) * (x2 - x1) - (x4 - x3) * (y2 - y1)
      in if denom = 0 then False
         else
           let ua = ((x4 - x3) * (y1 - y3) - (y4 - y3) * (x1 - x3)) / denom;
               ub = ((x2 - x1) * (y1 - y3) - (y2 - y1) * (x1 - x3)) / denom
           in ua \<ge> 0 \<and> ua \<le> 1 \<and> ub \<ge> 0 \<and> ub \<le> 1)"

definition lineRectCollide ::
  "real \<Rightarrow> real \<Rightarrow> real \<Rightarrow> real \<Rightarrow> real \<Rightarrow> real \<Rightarrow> real \<Rightarrow> real \<Rightarrow> bool" where
  "lineRectCollide x1 y1 x2 y2 rx ry rw rh =
     (let inside = (\<lambda>px py. px \<ge> rx \<and> px \<le> rx + rw \<and> py \<ge> ry \<and> py \<le> ry + rh)
      in if inside x1 y1 \<or> inside x2 y2 then True
         else
           let right = rx + rw;
               bottom = ry + rh
           in if lineLine x1 y1 x2 y2 rx ry right ry then True
              else if lineLine x1 y1 x2 y2 rx bottom right bottom then True
              else if lineLine x1 y1 x2 y2 rx ry rx bottom then True
              else if lineLine x1 y1 x2 y2 right ry right bottom then True
              else False)"

definition getLineIntersection ::
  "Vector2 \<Rightarrow> Vector2 \<Rightarrow> Vector2 \<Rightarrow> Vector2 \<Rightarrow> Vector2 option" where
  "getLineIntersection p0 p1 p2 p3 =
     (let s1_x = x p1 - x p0;
          s1_y = y p1 - y p0;
          s2_x = x p3 - x p2;
          s2_y = y p3 - y p2;
          denom = - s2_x * s1_y + s1_x * s2_y
      in if denom = 0 then None
         else
           let s = (- s1_y * (x p0 - x p2) + s1_x * (y p0 - y p2)) / denom;
               t = (s2_x * (y p0 - y p2) - s2_y * (x p0 - x p2)) / denom
           in if s \<ge> 0 \<and> s \<le> 1 \<and> t \<ge> 0 \<and> t \<le> 1
              then Some \<lparr>x = x p0 + (t * s1_x), y = y p0 + (t * s1_y)\<rparr>
              else None)"

text \<open>A sword segment as \<^verbatim>\<open>drawSaber\<close> returns it: \<open>p1\<close> is the hilt top, \<open>p2\<close> the
  blade tip, both in canvas pixels.\<close>

record Segment =
  p1 :: Vector2
  p2 :: Vector2

text \<open>The blade-clash test of the duel branch of \<^verbatim>\<open>drawLoop\<close>: the value of
  \<^verbatim>\<open>collisionPt\<close> when both segments exist.\<close>

definition clashPoint :: "Segment \<Rightarrow> Segment \<Rightarrow> Vector2 option" where
  "clashPoint s1 s2 =
     (case getLineIntersection (p1 s1) (p2 s1) (p1 s2) (p2 s2) of
        Some pt \<Rightarrow> Some pt
      | None \<Rightarrow>
          let d1 = distToSegment (p2 s1) (p1 s2) (p2 s2);
              d2 = distToSegment (p2 s2) (p1 s1) (p2 s1);
              THRESHOLD = 50
          in if d1 < THRESHOLD then Some (p2 s1)
             else if d2 < THRESHOLD then Some (p2 s2)
             else None)"

section \<open>Component state (the refs and React state of LightsaberAR)\<close>

record Enemy =
  enemy_id :: real
  enemy_x :: real
  enemy_y :: real
  enemy_text :: string
  speed :: real
  hit :: bool

text \<open>
  One record for everything the component holds: the React state set through
  \<^verbatim>\<open>setX\<close> calls (modelled as assignments), the solo refs and the duel refs.
  The particle list is left out: it is written by \<^verbatim>\<open>spawnParticles\<close> and read only
  by the renderer, never by the state machines, the reset or the hit test.
\<close>

record Game =
  gameMode :: GameMode
  gameState :: GameState
  isGameActive :: bool
  score :: int
  duelWinner :: "nat option"
  p1Hp :: int
  p2Hp :: int
  hitFlash :: nat
  clashFlash :: bool
  gameStateRef :: GameState
  swordProgressRef :: real
  prevHandPosRef :: "Vector2 option"
  velocityRef :: real
  trailHistoryRef :: "TrailEntry list"
  enemiesRef :: "Enemy list"
  lastEnemySpawnTime :: int
  noseHistoryRef :: "(real \<times> int) list"
  lastNodTriggerTime :: int
  isGameActiveRef :: bool
  swordHandRef :: "Handedness option"
  lastFistTimeRef :: int
  duelStateRef :: GameState
  player1Ref :: DuelPlayerState
  player2Ref :: DuelPlayerState

definition initialPlayer :: "nat \<Rightarrow> string \<Rightarrow> DuelPlayerState" where
  "initialPlayer i c =
     \<lparr>id_player = i, hp = 100, maxHp = 100, saberColor = c,
      swordState = IDLE, swordProgress = 0, swordHand = None,
      lastFistTime = 0, velocity = 0, prevHandPos = None, trail = [], lastHitTime = 0\<rparr>"

definition initialGame :: Game where
  "initialGame =
     \<lparr>gameMode = SOLO, gameState = IDLE, isGameActive = False, score = 0,
      duelWinner = None, p1Hp = 100, p2Hp = 100, hitFlash = 0, clashFlash = False,
      gameStateRef = IDLE, swordProgressRef = 0, prevHandPosRef = None, velocityRef = 0,
      trailHistoryRef = [], enemiesRef = [], lastEnemySpawnTime = 0, noseHistoryRef = [],
      lastNodTriggerTime = 0, isGameActiveRef = False, swordHandRef = None,
      lastFistTimeRef = 0, duelStateRef = DUEL_WAITING,
      player1Ref = initialPlayer 1 ''#00ffff'', player2Ref = initialPlayer 2 ''#ff3333''\<rparr>"

definition DUEL_AUTO_IGNITE_TIME :: int where "DUEL_AUTO_IGNITE_TIME = 400"
definition CASTING_START_DIST :: real where "CASTING_START_DIST = 0.15"
definition CASTING_COMPLETE_DIST :: real where "CASTING_COMPLETE_DIST = 0.55"
definition FIST_LOSS_GRACE_PERIOD :: int where "FIST_LOSS_GRACE_PERIOD = 2500"

section \<open>Reset\<close>

definition resetPlayer :: "DuelPlayerState \<Rightarrow> DuelPlayerState" where
  "resetPlayer p =
     p\<lparr>hp := 100, swordState := IDLE, swordProgress := 0, swordHand := None,
       trail := [], lastHitTime := 0, lastFistTime := 0\<rparr>"

definition resetGame :: "Game \<Rightarrow> Game" where
  "resetGame g =
     g\<lparr>score := 0, isGameActive := False, isGameActiveRef := False,
       gameState := IDLE, gameStateRef := IDLE, enemiesRef := [],
       hitFlash := 0, clashFlash := False,
       duelStateRef := DUEL_WAITING, duelWinner := None, p1Hp := 100, p2Hp := 100,
       player1Ref := resetPlayer (player1Ref g), player2Ref := resetPlayer (player2Ref g)\<rparr>"

definition toggleMode :: "Game \<Rightarrow> Game" where
  "toggleMode g =
     (let newMode = (if gameMode g = SOLO then DUEL else SOLO)
      in resetGame (g\<lparr>gameMode := newMode\<rparr>))"

section \<open>Per-frame sword state machines\<close>

text \<open>\<^verbatim>\<open>hands.find(h => isFist(h))\<close>: the first hand for which the test holds; the whole
  search throws as soon as the test throws on a hand it inspects.\<close>

fun findThrowing :: "('a \<Rightarrow> bool option) \<Rightarrow> 'a list \<Rightarrow> 'a option option" where
  "findThrowing P [] = Some None"
| "findThrowing P (a # rest) =
     (case P a of
        None \<Rightarrow> None
      | Some True \<Rightarrow> Some (Some a)
      | Some False \<Rightarrow> findThrowing P rest)"

text \<open>\<^verbatim>\<open>swordHand && isFist(swordHand)\<close>.\<close>

definition presentAndFist :: "HandData option \<Rightarrow> bool option" where
  "presentAndFist swordHandData =
     (case swordHandData of None \<Rightarrow> Some False | Some sh \<Rightarrow> isFist sh)"

text \<open>The velocity update shared verbatim by both machines: exponential smoothing of the
  hilt-top displacement against the previous position, when there is one.\<close>

definition smoothVelocity :: "real \<Rightarrow> Vector2 option \<Rightarrow> Vector2 \<Rightarrow> real" where
  "smoothVelocity vel prev hTop =
     (case prev of
        Some prevPos \<Rightarrow> vel * 0.85 + getDistance hTop prevPos * 0.15
      | None \<Rightarrow> vel)"

text \<open>\<^verbatim>\<open>processDuelPlayer(player, myHands)\<close>, with the value of \<^verbatim>\<open>Date.now()\<close> as
  a parameter. The player object is mutated in place; the model returns it updated.\<close>

definition processDuelPlayer ::
  "int \<Rightarrow> DuelPlayerState \<Rightarrow> HandData list \<Rightarrow> DuelPlayerState option" where
  "processDuelPlayer now player myHands =
     (let swordHandData = find (\<lambda>h. Some (handedness h) = swordHand player) myHands
      in case swordState player of
        IDLE \<Rightarrow>
          do {
            fistHand \<leftarrow> findThrowing isFist myHands;
            Some (case fistHand of
                    Some fh \<Rightarrow>
                      player\<lparr>swordHand := Some (handedness fh), swordState := HILT_FORMING,
                             lastFistTime := now, swordProgress := 0\<rparr>
                  | None \<Rightarrow> player)
          }
      | HILT_FORMING \<Rightarrow>
          do {
            gripping \<leftarrow> presentAndFist swordHandData;
            if gripping then
              do {
                let player = player\<lparr>swordProgress := swordProgress player + 0.05\<rparr>;
                let player =
                  (if now - lastFistTime player > DUEL_AUTO_IGNITE_TIME
                   then player\<lparr>swordState := ACTIVE, swordProgress := 1\<rparr>
                   else player);
                gp \<leftarrow> Option.bind swordHandData getGripPoints;
                Some player
              }
            else Some (player\<lparr>swordState := IDLE, swordHand := None, swordProgress := 0\<rparr>)
          }
      | ACTIVE \<Rightarrow>
          do {
            gripping \<leftarrow> presentAndFist swordHandData;
            let player = (if gripping then player\<lparr>lastFistTime := now\<rparr> else player);
            let player =
              (if now - lastFistTime player > FIST_LOSS_GRACE_PERIOD
               then player\<lparr>swordState := DISSOLVING\<rparr>
               else player);
            case swordHandData of
              None \<Rightarrow> Some player
            | Some sh \<Rightarrow>
                do {
                  gp \<leftarrow> getGripPoints sh;
                  let player =
                    player\<lparr>velocity :=
                      smoothVelocity (velocity player) (prevHandPos player) (hiltTop gp)\<rparr>;
                  Some (player\<lparr>prevHandPos := Some (hiltTop gp)\<rparr>)
                }
          }
      | DISSOLVING \<Rightarrow>
          (let player = player\<lparr>swordProgress := swordProgress player - 0.1\<rparr>
           in Some (if swordProgress player \<le> 0
                    then player\<lparr>swordProgress := 0, swordState := IDLE, swordHand := None\<rparr>
                    else player))
      | _ \<Rightarrow> Some player)"

text \<open>The shared body of the \<^verbatim>\<open>HILT_FORMING\<close>, \<^verbatim>\<open>CASTING\<close> and \<^verbatim>\<open>ACTIVE\<close>
  cases of \<^verbatim>\<open>processSoloPlayer\<close>: five statements run in order on the refs.\<close>

definition soloHeld ::
  "int \<Rightarrow> HandData option \<Rightarrow> HandData option \<Rightarrow> Game \<Rightarrow> Game option" where
  "soloHeld now swordHandData forceHand g =
     do {
       gripping \<leftarrow> presentAndFist swordHandData;
       let g = (if gripping then g\<lparr>lastFistTimeRef := now\<rparr> else g);
       let g =
         (if now - lastFistTimeRef g > 500
          then g\<lparr>gameStateRef := DISSOLVING, gameState := DISSOLVING\<rparr>
          else g);
       g \<leftarrow>
         (case (gameStateRef g = HILT_FORMING, swordHandData, forceHand) of
            (True, Some sh, Some fh) \<Rightarrow>
              do {
                c1 \<leftarrow> getHandCenter sh;
                c2 \<leftarrow> getHandCenter fh;
                Some (if getDistance c1 c2 < CASTING_START_DIST
                      then g\<lparr>gameStateRef := CASTING, gameState := CASTING\<rparr>
                      else g)
              }
          | _ \<Rightarrow> Some g);
       g \<leftarrow>
         (case (gameStateRef g = CASTING, swordHandData, forceHand) of
            (True, Some sh, Some fh) \<Rightarrow>
              do {
                c1 \<leftarrow> getHandCenter sh;
                c2 \<leftarrow> getHandCenter fh;
                let dist = getDistance c1 c2;
                let progress =
                  min ((dist - CASTING_START_DIST) / (CASTING_COMPLETE_DIST - CASTING_START_DIST)) 1;
                let g = g\<lparr>swordProgressRef := max 0 progress\<rparr>;
                if progress \<ge> 1
                then do {
                       gp \<leftarrow> getGripPoints sh;
                       Some (g\<lparr>gameStateRef := ACTIVE, gameState := ACTIVE\<rparr>)
                     }
                else Some g
              }
          | _ \<Rightarrow> Some g);
       case (gameStateRef g = ACTIVE, swordHandData) of
         (True, Some sh) \<Rightarrow>
           do {
             gp \<leftarrow> getGripPoints sh;
             let g =
               g\<lparr>velocityRef := smoothVelocity (velocityRef g) (prevHandPosRef g) (hiltTop gp)\<rparr>;
             Some (g\<lparr>prevHandPosRef := Some (hiltTop gp)\<rparr>)
           }
       | _ \<Rightarrow> Some g
     }"

text \<open>\<^verbatim>\<open>processSoloPlayer(hands)\<close>, with the value of \<^verbatim>\<open>Date.now()\<close> as a parameter.\<close>

definition processSoloPlayer :: "int \<Rightarrow> HandData list \<Rightarrow> Game \<Rightarrow> Game option" where
  "processSoloPlayer now hands g =
     (let swordHandData = find (\<lambda>h. Some (handedness h) = swordHandRef g) hands;
          forceHand = find (\<lambda>h. Some (handedness h) \<noteq> swordHandRef g) hands
      in case gameStateRef g of
        IDLE \<Rightarrow>
          do {
            fistHand \<leftarrow> findThrowing isFist hands;
            Some (case fistHand of
                    Some fh \<Rightarrow>
                      g\<lparr>swordHandRef := Some (handedness fh), gameStateRef := HILT_FORMING,
                        gameState := HILT_FORMING, lastFistTimeRef := now\<rparr>
                  | None \<Rightarrow> g)
          }
      | HILT_FORMING \<Rightarrow> soloHeld now swordHandData forceHand g
      | CASTING \<Rightarrow> soloHeld now swordHandData forceHand g
      | ACTIVE \<Rightarrow> soloHeld now swordHandData forceHand g
      | DISSOLVING \<Rightarrow>
          (let g = g\<lparr>swordProgressRef := swordProgressRef g - 0.05\<rparr>
           in Some (if swordProgressRef g \<le> 0
                    then g\<lparr>swordProgressRef := 0, gameStateRef := IDLE, gameState := IDLE,
                           swordHandRef := None\<rparr>
                    else g))
      | _ \<Rightarrow> Some g)"

text \<open>A frame as the state machines see it: the clock value and the hands handed to the
  actor. Running a list of frames stops at the first throw, as the animation loop does
  (the next frame is requested only after the current one returns).\<close>

type_synonym Frame = "int \<times> HandData list"

fun runDuelPlayer :: "DuelPlayerState \<Rightarrow> Frame list \<Rightarrow> DuelPlayerState option" where
  "runDuelPlayer player [] = Some player"
| "runDuelPlayer player (f # frames) =
     (case processDuelPlayer (fst f) player (snd f) of
        None \<Rightarrow> None
      | Some player' \<Rightarrow> runDuelPlayer player' frames)"

fun runSoloPlayer :: "Game \<Rightarrow> Frame list \<Rightarrow> Game option" where
  "runSoloPlayer g [] = Some g"
| "runSoloPlayer g (f # frames) =
     (case processSoloPlayer (fst f) (snd f) g of
        None \<Rightarrow> None
      | Some g' \<Rightarrow> runSoloPlayer g' frames)"

definition wellFormedFrame :: "Frame \<Rightarrow> bool" where
  "wellFormedFrame f = list_all (\<lambda>hand. 21 \<le> length (landmarks hand)) (snd f)"

section \<open>Duel hit test\<close>

text \<open>A tracked face as the duel branch builds it: \<^verbatim>\<open>[i, l[1], l]\<close>, the index, the nose
  landmark and all landmarks.\<close>

type_synonym Face = "nat \<times> Landmark \<times> Landmark list"

text \<open>\<^verbatim>\<open>targetPlayer\<close> is a reference to one of the two player objects.\<close>

datatype PlayerRef = Player1 | Player2

definition getPlayer :: "PlayerRef \<Rightarrow> Game \<Rightarrow> DuelPlayerState" where
  "getPlayer r g = (case r of Player1 \<Rightarrow> player1Ref g | Player2 \<Rightarrow> player2Ref g)"

definition setPlayer :: "PlayerRef \<Rightarrow> DuelPlayerState \<Rightarrow> Game \<Rightarrow> Game" where
  "setPlayer r p g = (case r of Player1 \<Rightarrow> g\<lparr>player1Ref := p\<rparr> | Player2 \<Rightarrow> g\<lparr>player2Ref := p\<rparr>)"

text \<open>The hit box: around the nose when the face is tracked, else a fixed region on the
  defender's side.\<close>

definition hitBox :: "real \<Rightarrow> real \<Rightarrow> Face option \<Rightarrow> bool \<Rightarrow> real \<times> real \<times> real \<times> real" where
  "hitBox w h targetFace isRightSidePlayer =
     (case targetFace of
        Some face \<Rightarrow>
          (let nose = fst (snd face);
               nx = (1 - x nose) * w;
               ny = y nose * h;
               boxW = 300;
               boxH = 700;
               boxX = nx - boxW / 2;
               boxY = ny - 150
           in (boxX, boxY, boxW, boxH))
      | None \<Rightarrow>
          (let centerX = (if isRightSidePlayer then w * 0.75 else w * 0.25);
               boxW = 350;
               boxH = 800;
               boxX = centerX - boxW / 2;
               boxY = h * 0.2
           in (boxX, boxY, boxW, boxH)))"

text \<open>\<^verbatim>\<open>checkHit(saberSeg, targetFace, targetPlayer, isRightSidePlayer)\<close>; \<open>now\<close>, \<open>w\<close>
  and \<open>h\<close> are the variables of the enclosing frame. The deferred clearing of the hit
  flash is a timer callback and not part of the call.\<close>

definition checkHit ::
  "int \<Rightarrow> real \<Rightarrow> real \<Rightarrow> Segment option \<Rightarrow> Face option \<Rightarrow> PlayerRef \<Rightarrow> bool \<Rightarrow> Game \<Rightarrow> Game" where
  "checkHit now w h saberSeg targetFace targetRef isRightSidePlayer g =
     (let targetPlayer = getPlayer targetRef g
      in case saberSeg of
        None \<Rightarrow> g
      | Some seg \<Rightarrow>
          if now - lastHitTime targetPlayer < 500 then g
          else
            (case hitBox w h targetFace isRightSidePlayer of
               (boxX, boxY, boxW, boxH) \<Rightarrow>
                 if lineRectCollide (x (p1 seg)) (y (p1 seg)) (x (p2 seg)) (y (p2 seg))
                      boxX boxY boxW boxH
                 then
                   (let targetPlayer =
                          targetPlayer\<lparr>hp := max 0 (hp targetPlayer - 8), lastHitTime := now\<rparr>;
                        g = setPlayer targetRef targetPlayer g;
                        g = g\<lparr>hitFlash := id_player targetPlayer\<rparr>
                    in if hp targetPlayer \<le> 0
                       then g\<lparr>duelStateRef := DUEL_ENDED,
                              duelWinner := Some (if id_player targetPlayer = 1 then 2 else 1)\<rparr>
                       else if id_player targetPlayer = 1
                            then g\<lparr>p1Hp := hp targetPlayer\<rparr>
                            else g\<lparr>p2Hp := hp targetPlayer\<rparr>)
                 else g))"

section \<open>Specification-side notions\<close>

text \<open>The fist rule in the specification's words: a finger is curled when its tip is nearer
  to the wrist than its middle joint (PIP), or nearer than 1.2 times its base joint (MCP);
  a hand is a fist when at least three of index, middle, ring and pinky are curled.\<close>

definition spec_curled :: "HandData \<Rightarrow> nat \<Rightarrow> nat \<Rightarrow> nat \<Rightarrow> bool" where
  "spec_curled hand tipI pipI mcpI =
     (let wrist = landmarks hand ! 0;
          tipToWrist = getDistance (landmarks hand ! tipI) wrist;
          pipToWrist = getDistance (landmarks hand ! pipI) wrist;
          mcpToWrist = getDistance (landmarks hand ! mcpI) wrist
      in tipToWrist < pipToWrist \<or> tipToWrist < 1.2 * mcpToWrist)"

definition spec_is_fist :: "HandData \<Rightarrow> bool" where
  "spec_is_fist hand =
     (3 \<le> length (filter (\<lambda>b. b)
        [spec_curled hand 8 6 5, spec_curled hand 12 10 9,
         spec_curled hand 16 14 13, spec_curled hand 20 18 17]))"

text \<open>Two hands that differ at most in the thumb landmarks (indices 1 to 4).\<close>

definition agreeExceptThumb :: "HandData \<Rightarrow> HandData \<Rightarrow> bool" where
  "agreeExceptThumb hand hand' =
     (length (landmarks hand') = length (landmarks hand) \<and>
      (\<forall>i < length (landmarks hand). i \<notin> {1, 2, 3, 4} \<longrightarrow> landmarks hand' ! i = landmarks hand ! i))"

definition moveThumb :: "Landmark \<Rightarrow> HandData \<Rightarrow> HandData" where
  "moveThumb q hand = hand\<lparr>landmarks := (landmarks hand)[1 := q, 2 := q, 3 := q, 4 := q]\<rparr>"

text \<open>Uniform scaling by \<open>s\<close> followed by translation by \<open>t\<close>, applied to every
  coordinate of every landmark; \<open>s = 1\<close> is a pure translation, \<open>t = 0\<close> a pure scaling.\<close>

definition transformLandmark :: "real \<Rightarrow> real \<times> real \<times> real \<Rightarrow> Landmark \<Rightarrow> Landmark" where
  "transformLandmark s t p =
     (case t of (tx, ty, tz) \<Rightarrow> \<lparr>x = s * x p + tx, y = s * y p + ty, z = s * z p + tz\<rparr>)"

definition transformHand :: "real \<Rightarrow> real \<times> real \<times> real \<Rightarrow> HandData \<Rightarrow> HandData" where
  "transformHand s t hand = hand\<lparr>landmarks := map (transformLandmark s t) (landmarks hand)\<rparr>"

text \<open>Two hands whose landmarks agree on \<open>x\<close> and \<open>y\<close>; \<open>z\<close> is free.\<close>

definition agreeXY :: "HandData \<Rightarrow> HandData \<Rightarrow> bool" where
  "agreeXY hand hand' =
     (map x (landmarks hand') = map x (landmarks hand) \<and>
      map y (landmarks hand') = map y (landmarks hand))"

definition liftZ :: "real \<Rightarrow> HandData \<Rightarrow> HandData" where
  "liftZ c hand = hand\<lparr>landmarks := map (\<lambda>p. p\<lparr>z := z p + c\<rparr>) (landmarks hand)\<rparr>"

text \<open>The point at parameter \<open>u\<close> on the segment from \<open>a\<close> to \<open>b\<close>, and parallelism of two
  segments (zero cross product of their directions).\<close>

definition pointAt :: "Vector2 \<Rightarrow> Vector2 \<Rightarrow> real \<Rightarrow> Vector2" where
  "pointAt a b u = \<lparr>x = x a + u * (x b - x a), y = y a + u * (y b - y a)\<rparr>"

definition parallelSegs :: "Vector2 \<Rightarrow> Vector2 \<Rightarrow> Vector2 \<Rightarrow> Vector2 \<Rightarrow> bool" where
  "parallelSegs a0 a1 b0 b1 = ((x a1 - x a0) * (y b1 - y b0) - (y a1 - y a0) * (x b1 - x b0) = 0)"

text \<open>A hit lands: there is a blade, the defender is out of the 500 ms window, and the
  blade meets the hit box.\<close>

definition hitLands ::
  "int \<Rightarrow> real \<Rightarrow> real \<Rightarrow> Segment option \<Rightarrow> Face option \<Rightarrow> PlayerRef \<Rightarrow> bool \<Rightarrow> Game \<Rightarrow> bool" where
  "hitLands now w h saberSeg targetFace targetRef isRightSidePlayer g =
     (case saberSeg of
        None \<Rightarrow> False
      | Some seg \<Rightarrow>
          500 \<le> now - lastHitTime (getPlayer targetRef g) \<and>
          (case hitBox w h targetFace isRightSidePlayer of
             (boxX, boxY, boxW, boxH) \<Rightarrow>
               lineRectCollide (x (p1 seg)) (y (p1 seg)) (x (p2 seg)) (y (p2 seg))
                 boxX boxY boxW boxH))"

definition otherRef :: "PlayerRef \<Rightarrow> PlayerRef" where
  "otherRef r = (case r of Player1 \<Rightarrow> Player2 | Player2 \<Rightarrow> Player1)"

definition idsInPlace :: "Game \<Rightarrow> bool" where
  "idsInPlace g = (id_player (player1Ref g) = 1 \<and> id_player (player2Ref g) = 2)"

text \<open>What a reset does to one duel player: seven fields take their defaults, the
  others keep their values.\<close>

definition playerReset :: "DuelPlayerState \<Rightarrow> DuelPlayerState \<Rightarrow> bool" where
  "playerReset p p' =
     (hp p' = 100 \<and> swordState p' = IDLE \<and> swordProgress p' = 0 \<and> swordHand p' = None \<and>
      trail p' = [] \<and> lastHitTime p' = 0 \<and> lastFistTime p' = 0 \<and>
      velocity p' = velocity p \<and> prevHandPos p' = prevHandPos p \<and>
      id_player p' = id_player p \<and> maxHp p' = maxHp p \<and> saberColor p' = saberColor p)"

text \<open>Invariants of the two machines used in the proofs below.\<close>

definition duelBounds :: "DuelPlayerState \<Rightarrow> bool" where
  "duelBounds p =
     (0 \<le> swordProgress p \<and>
      (swordState p = IDLE \<longrightarrow> swordProgress p = 0) \<and>
      (swordState p \<noteq> HILT_FORMING \<longrightarrow> swordProgress p \<le> 1))"

definition duelBudget :: "nat \<Rightarrow> DuelPlayerState \<Rightarrow> bool" where
  "duelBudget k p = (swordState p = HILT_FORMING \<longrightarrow> swordProgress p \<le> 0.05 * real k)"

definition soloBounds :: "Game \<Rightarrow> bool" where
  "soloBounds g =
     (0 \<le> swordProgressRef g \<and> swordProgressRef g \<le> 1 \<and>
      (gameStateRef g = IDLE \<longrightarrow> swordProgressRef g = 0))"

definition handBound :: "DuelPlayerState \<Rightarrow> bool" where
  "handBound p = ((swordHand p \<noteq> None) = (swordState p \<noteq> IDLE))"

definition soloHandBound :: "Game \<Rightarrow> bool" where
  "soloHandBound g = ((swordHandRef g \<noteq> None) = (gameStateRef g \<noteq> IDLE))"

section \<open>Example inputs\<close>

text \<open>Hands laid out on the horizontal line \<open>y = 0.5\<close>: the wrist at \<open>x = 0.5\<close>, every
  joint at \<open>0.6\<close>, and the four finger tips either curled back to \<open>0.55\<close> (a fist) or
  stretched to \<open>0.7\<close> (an open hand).\<close>

definition handOfXs :: "real list \<Rightarrow> Handedness \<Rightarrow> HandData" where
  "handOfXs xs side =
     \<lparr>landmarks = map (\<lambda>a. \<lparr>x = a, y = 0.5, z = 0\<rparr>) xs, handedness = side, worldLandmarks = None\<rparr>"

definition fistXs :: "real list" where
  "fistXs = [0.5, 0.6, 0.6, 0.6, 0.6, 0.6, 0.6, 0.6, 0.55, 0.6, 0.6, 0.6, 0.55,
             0.6, 0.6, 0.6, 0.55, 0.6, 0.6, 0.6, 0.55]"

definition openXs :: "real list" where
  "openXs = [0.5, 0.6, 0.6, 0.6, 0.6, 0.6, 0.6, 0.6, 0.7, 0.6, 0.6, 0.6, 0.7,
             0.6, 0.6, 0.6, 0.7, 0.6, 0.6, 0.6, 0.7]"

definition fistHandL :: HandData where "fistHandL = handOfXs fistXs Left"

definition openHandL :: HandData where "openHandL = handOfXs openXs Left"

definition movedFistHandL :: HandData where
  "movedFistHandL = handOfXs (map (\<lambda>a. a + 0.1) fistXs) Left"

definition shortHand :: HandData where "shortHand = handOfXs [0.5, 0.6] Left"

text \<open>Frame sequences: grip, ignite after 500 ms, then swing (the hand moves by 0.1);
  a single grip frame; a grip followed 16 ms later by an open hand; and a grip held for 22
  further frames 16 ms apart, all inside the 400 ms ignite window.\<close>

definition swingFrames :: "Frame list" where
  "swingFrames =
     [(1000, [fistHandL]), (1500, [fistHandL]), (1516, [fistHandL]), (1532, [movedFistHandL])]"

definition gripFrames :: "Frame list" where
  "gripFrames = [(1000, [fistHandL])]"

definition releaseFrames :: "Frame list" where
  "releaseFrames = [(1000, [fistHandL]), (1016, [openHandL])]"

definition igniteFrames :: "Frame list" where
  "igniteFrames = (1000, [fistHandL]) # map (\<lambda>k. (1000 + 16 * k, [fistHandL])) [1..22]"

definition swingGame :: "Game option" where
  "swingGame =
     map_option (\<lambda>p. initialGame\<lparr>gameMode := DUEL, player1Ref := p\<rparr>)
       (runDuelPlayer (player1Ref initialGame) swingFrames)"

definition hiltPlayer :: DuelPlayerState where
  "hiltPlayer =
     (initialPlayer 1 ''#00ffff'')
       \<lparr>swordHand := Some Left, swordState := HILT_FORMING, lastFistTime := 1000\<rparr>"

definition hiltGame :: Game where
  "hiltGame =
     initialGame\<lparr>swordHandRef := Some Left, gameStateRef := HILT_FORMING,
       gameState := HILT_FORMING, lastFistTimeRef := 1000\<rparr>"

text \<open>A duel in progress on a 1280 by 720 canvas: player 2 is down to 4 hit points and
  was last hit at time 4000; player 1's blade \<open>bladeSeg\<close> lies inside player 2's fallback hit box, player 2's blade
  \<open>counterSeg\<close> inside player 1's.\<close>

definition fightGame :: Game where
  "fightGame =
     initialGame\<lparr>gameMode := DUEL, duelStateRef := DUEL_FIGHTING,
       player1Ref := (player1Ref initialGame)\<lparr>swordState := ACTIVE, swordProgress := 1,
                                               swordHand := Some Right\<rparr>,
       player2Ref := (player2Ref initialGame)\<lparr>hp := 4, lastHitTime := 4000, swordState := ACTIVE,
                                               swordProgress := 1, swordHand := Some Left\<rparr>\<rparr>"

definition bladeSeg :: Segment where
  "bladeSeg = \<lparr>p1 = \<lparr>x = 900, y = 300\<rparr>, p2 = \<lparr>x = 1000, y = 300\<rparr>\<rparr>"

definition counterSeg :: Segment where
  "counterSeg = \<lparr>p1 = \<lparr>x = 300, y = 300\<rparr>, p2 = \<lparr>x = 400, y = 300\<rparr>\<rparr>"

text \<open>Two parallel blades two pixels apart, and two blades crossing at \<open>(100, 100)\<close>.\<close>

definition nearA :: Segment where
  "nearA = \<lparr>p1 = \<lparr>x = 100, y = 100\<rparr>, p2 = \<lparr>x = 300, y = 100\<rparr>\<rparr>"

definition nearB :: Segment where
  "nearB = \<lparr>p1 = \<lparr>x = 100, y = 102\<rparr>, p2 = \<lparr>x = 300, y = 102\<rparr>\<rparr>"

definition crossA :: Segment where
  "crossA = \<lparr>p1 = \<lparr>x = 0, y = 0\<rparr>, p2 = \<lparr>x = 200, y = 200\<rparr>\<rparr>"

definition crossB :: Segment where
  "crossB = \<lparr>p1 = \<lparr>x = 0, y = 200\<rparr>, p2 = \<lparr>x = 200, y = 0\<rparr>\<rparr>"

section \<open>Facts about the geometry kernel\<close>

lemma getDistance_level: "y p = y q \<Longrightarrow> getDistance p q = \<bar>x q - x p\<bar>"
  by (simp add: getDistance_def)

lemma normalizeVector_level:
  "y v = 0 \<Longrightarrow> 0 < x v \<Longrightarrow> normalizeVector v = \<lparr>x = 1, y = 0\<rparr>"
  by (simp add: normalizeVector_def Let_def)

lemma fingerCurled_Some:
  "21 \<le> length (landmarks hand) \<Longrightarrow> f \<in> set fingers \<Longrightarrow>
   fingerCurled hand f =
     Some (getDistance (landmarks hand ! tipIdx f) (landmarks hand ! 0)
             < getDistance (landmarks hand ! pipIdx f) (landmarks hand ! 0)
         \<or> getDistance (landmarks hand ! tipIdx f) (landmarks hand ! 0)
             < getDistance (landmarks hand ! (pipIdx f - 1)) (landmarks hand ! 0) * 1.2)"
  by (auto simp: fingerCurled_def fingers_def landmark_def Let_def)

lemma isFist_None: "length (landmarks hand) < 21 \<Longrightarrow> isFist hand = None"
  by (auto simp: isFist_def fingers_def fingerCurled_def landmark_def
      split: option.splits bind_splits)

lemma isFist_Some:
  "21 \<le> length (landmarks hand) \<Longrightarrow> \<exists>b. isFist hand = Some b"
  by (simp add: isFist_def fingers_def fingerCurled_Some)

lemma curledCount_cong:
  "(\<And>f. f \<in> set fs \<Longrightarrow> fingerCurled hand' f = fingerCurled hand f) \<Longrightarrow>
   curledCount hand' fs c = curledCount hand fs c"
  by (induction fs arbitrary: c) (auto split: option.splits)

lemma isFist_cong:
  "(\<And>f. f \<in> set fingers \<Longrightarrow> fingerCurled hand' f = fingerCurled hand f) \<Longrightarrow>
   isFist hand' = isFist hand"
  unfolding isFist_def
  by (rule arg_cong [where f = "map_option (\<lambda>c. 3 \<le> c)"], rule curledCount_cong)

lemma fingerCurled_thumb:
  assumes "agreeExceptThumb hand hand'" "f \<in> set fingers"
  shows "fingerCurled hand' f = fingerCurled hand f"
proof -
  have eq: "landmark hand' i = landmark hand i" if "i \<notin> {1, 2, 3, 4}" for i
    using assms(1) that by (auto simp: agreeExceptThumb_def landmark_def)
  from assms(2) show ?thesis
    by (auto simp: fingerCurled_def fingers_def eq)
qed

lemma isFist_thumb:
  "agreeExceptThumb hand hand' \<Longrightarrow> isFist hand' = isFist hand"
  by (rule isFist_cong) (rule fingerCurled_thumb)

lemma isFist_matches_spec:
  "21 \<le> length (landmarks hand) \<Longrightarrow> isFist hand = Some (spec_is_fist hand)"
  by (simp add: isFist_def fingers_def fingerCurled_Some spec_is_fist_def spec_curled_def
      Let_def mult.commute)

lemma agreeExceptThumb_moveThumb: "agreeExceptThumb hand (moveThumb q hand)"
  by (simp add: agreeExceptThumb_def moveThumb_def)

lemma isFist_fistHandL: "isFist fistHandL = Some True"
  by (simp add: isFist_def fingers_def fingerCurled_def landmark_def fistHandL_def handOfXs_def
      fistXs_def getDistance_level)

lemma isFist_movedFistHandL: "isFist movedFistHandL = Some True"
  by (simp add: isFist_def fingers_def fingerCurled_def landmark_def movedFistHandL_def
      handOfXs_def fistXs_def getDistance_level)

lemma isFist_openHandL: "isFist openHandL = Some False"
  by (simp add: isFist_def fingers_def fingerCurled_def landmark_def openHandL_def handOfXs_def
      openXs_def getDistance_level)

lemma getGripPoints_fistHandL:
  "getGripPoints fistHandL =
     Some \<lparr>hiltBottom = \<lparr>x = 0.48, y = 0.5\<rparr>, hiltTop = \<lparr>x = 0.65, y = 0.5\<rparr>,
           direction = \<lparr>x = 1, y = 0\<rparr>\<rparr>"
  by (simp add: getGripPoints_def getSwordDirection_def landmark_def fistHandL_def handOfXs_def
      fistXs_def normalizeVector_level addVector_def subVector_def scaleVector_def)

lemma getGripPoints_movedFistHandL:
  "getGripPoints movedFistHandL =
     Some \<lparr>hiltBottom = \<lparr>x = 0.58, y = 0.5\<rparr>, hiltTop = \<lparr>x = 0.75, y = 0.5\<rparr>,
           direction = \<lparr>x = 1, y = 0\<rparr>\<rparr>"
  by (simp add: getGripPoints_def getSwordDirection_def landmark_def movedFistHandL_def
      handOfXs_def fistXs_def normalizeVector_level addVector_def subVector_def scaleVector_def)

lemma handedness_examples:
  "handedness fistHandL = Left" "handedness openHandL = Left" "handedness movedFistHandL = Left"
  by (simp_all add: fistHandL_def openHandL_def movedFistHandL_def handOfXs_def)

lemma length_examples:
  "length (landmarks fistHandL) = 21" "length (landmarks openHandL) = 21"
  "length (landmarks movedFistHandL) = 21" "length (landmarks shortHand) = 2"
  by (simp_all add: fistHandL_def openHandL_def movedFistHandL_def shortHand_def handOfXs_def
      fistXs_def openXs_def)

text \<open>
  Claim C8. \<open>isFist\<close> answers on a hand of at least 21 landmarks, and its answer is the
  specification's rule: at least three of the four non-thumb fingers are curled, a finger
  being curled when its tip is nearer to the wrist than its PIP joint or nearer than 1.2
  times its MCP joint. On a shorter landmark array the call throws. Changing the thumb
  landmarks (indices 1 to 4) in any way never changes the result.
\<close>

theorem isFist_three_of_four:
  "(21 \<le> length (landmarks hand) \<longrightarrow> isFist hand = Some (spec_is_fist hand)) \<and>
   (length (landmarks hand) < 21 \<longrightarrow> isFist hand = None) \<and>
   (agreeExceptThumb hand hand' \<longrightarrow> isFist hand' = isFist hand)"
  by (simp add: isFist_matches_spec isFist_None isFist_thumb)

theorem isFist_three_of_four_witness:
  "21 \<le> length (landmarks fistHandL) \<and>
   isFist fistHandL = Some (spec_is_fist fistHandL) \<and>
   spec_is_fist fistHandL \<and>
   agreeExceptThumb fistHandL (moveThumb \<lparr>x = 0.3, y = 0.9, z = 0\<rparr> fistHandL) \<and>
   isFist (moveThumb \<lparr>x = 0.3, y = 0.9, z = 0\<rparr> fistHandL) = Some True \<and>
   length (landmarks shortHand) < 21 \<and> isFist shortHand = None"
proof -
  have len: "21 \<le> length (landmarks fistHandL)" "length (landmarks shortHand) < 21"
    by (simp_all add: length_examples)
  have agree: "agreeExceptThumb fistHandL (moveThumb \<lparr>x = 0.3, y = 0.9, z = 0\<rparr> fistHandL)"
    by (rule agreeExceptThumb_moveThumb)
  from isFist_three_of_four [of fistHandL "moveThumb \<lparr>x = 0.3, y = 0.9, z = 0\<rparr> fistHandL"]
    isFist_three_of_four [of shortHand shortHand] len agree
  show ?thesis by (simp add: isFist_fistHandL)
qed

lemma getDistance_transform:
  assumes s: "0 < s"
  shows "getDistance (transformLandmark s t p) (transformLandmark s t q) = s * getDistance p q"
proof -
  obtain tx ty tz where t: "t = (tx, ty, tz)" by (cases t) auto
  have "(s * x q + tx - (s * x p + tx))\<^sup>2 + (s * y q + ty - (s * y p + ty))\<^sup>2
        = s\<^sup>2 * ((x q - x p)\<^sup>2 + (y q - y p)\<^sup>2)"
    by (simp add: power2_eq_square algebra_simps)
  then show ?thesis
    using s by (simp add: getDistance_def transformLandmark_def t real_sqrt_mult)
qed

lemma landmark_transform:
  "landmark (transformHand s t hand) i = map_option (transformLandmark s t) (landmark hand i)"
  by (simp add: landmark_def transformHand_def)

lemma curl_test_scale:
  fixes s a b c :: real
  assumes "0 < s"
  shows "(s * a < s * b \<or> s * a < s * c * 1.2) = (a < b \<or> a < c * 1.2)"
proof -
  have "s * c * 1.2 = s * (c * 1.2)" by simp
  then show ?thesis using assms by (simp only: mult_less_cancel_left_pos)
qed

lemma fingerCurled_transform:
  assumes "0 < s"
  shows "fingerCurled (transformHand s t hand) f = fingerCurled hand f"
proof (cases "landmark hand 0 = None \<or> landmark hand (tipIdx f) = None
     \<or> landmark hand (pipIdx f) = None \<or> landmark hand (pipIdx f - 1) = None")
  case True
  then show ?thesis
    by (auto simp: fingerCurled_def landmark_transform split: bind_splits)
next
  case False
  then obtain w a b c where
    "landmark hand 0 = Some w" "landmark hand (tipIdx f) = Some a"
    "landmark hand (pipIdx f) = Some b" "landmark hand (pipIdx f - 1) = Some c"
    by auto
  then show ?thesis
    using curl_test_scale [OF assms]
    by (simp add: fingerCurled_def landmark_transform getDistance_transform [OF assms] Let_def)
qed

text \<open>
  Claim C9. Scaling every landmark coordinate by the same positive factor and shifting
  every landmark by the same vector leaves the result of \<open>isFist\<close> unchanged (a thrown
  error included); a pure translation is the case \<open>s = 1\<close>, a pure scaling the case of
  a zero shift.
\<close>

theorem isFist_transform: "0 < s \<Longrightarrow> isFist (transformHand s t hand) = isFist hand"
  by (rule isFist_cong) (rule fingerCurled_transform)

theorem isFist_transform_witness:
  "(0::real) < 2 \<and> isFist (transformHand 2 (1, 1, 1) fistHandL) = Some True \<and>
   isFist (transformHand 1 (3, - 2, 0) openHandL) = Some False \<and>
   isFist (transformHand (1 / 2) (0, 0, 0) shortHand) = None"
  using isFist_transform [of 2 "(1, 1, 1)" fistHandL]
    isFist_transform [of 1 "(3, - 2, 0)" openHandL]
    isFist_transform [of "1 / 2" "(0, 0, 0)" shortHand]
  by (simp add: isFist_fistHandL isFist_openHandL isFist_None length_examples)

lemma landmark_agreeXY:
  assumes "agreeXY hand hand'"
  shows "(landmark hand i = None \<and> landmark hand' i = None) \<or>
         (\<exists>p p'. landmark hand i = Some p \<and> landmark hand' i = Some p' \<and>
                  x p' = x p \<and> y p' = y p)"
proof -
  have len: "length (landmarks hand') = length (landmarks hand)"
    using assms unfolding agreeXY_def by (metis length_map)
  show ?thesis
  proof (cases "i < length (landmarks hand)")
    case True
    have "map x (landmarks hand') ! i = map x (landmarks hand) ! i"
         "map y (landmarks hand') ! i = map y (landmarks hand) ! i"
      using assms by (simp_all add: agreeXY_def)
    with True len show ?thesis by (simp add: landmark_def)
  next
    case False
    with len show ?thesis by (simp add: landmark_def)
  qed
qed

lemma fingerCurled_agreeXY:
  assumes "agreeXY hand hand'"
  shows "fingerCurled hand' f = fingerCurled hand f"
  using landmark_agreeXY [OF assms, of 0] landmark_agreeXY [OF assms, of "tipIdx f"]
    landmark_agreeXY [OF assms, of "pipIdx f"] landmark_agreeXY [OF assms, of "pipIdx f - 1"]
  by (auto simp: fingerCurled_def getDistance_def)

lemma isFist_agreeXY: "agreeXY hand hand' \<Longrightarrow> isFist hand' = isFist hand"
  by (rule isFist_cong) (rule fingerCurled_agreeXY)

lemma getHandCenter_agreeXY:
  assumes "agreeXY hand hand'"
  shows "getHandCenter hand' = getHandCenter hand"
  using landmark_agreeXY [OF assms, of 0] landmark_agreeXY [OF assms, of 5]
    landmark_agreeXY [OF assms, of 17]
  by (auto simp: getHandCenter_def)

lemma getSwordDirection_agreeXY:
  assumes "agreeXY hand hand'"
  shows "getSwordDirection hand' = getSwordDirection hand"
  using landmark_agreeXY [OF assms, of 0] landmark_agreeXY [OF assms, of 5]
    landmark_agreeXY [OF assms, of 9]
  by (auto simp: getSwordDirection_def)

lemma getGripPoints_agreeXY:
  assumes "agreeXY hand hand'"
  shows "getGripPoints hand' = getGripPoints hand"
  using landmark_agreeXY [OF assms, of 0] landmark_agreeXY [OF assms, of 5]
    landmark_agreeXY [OF assms, of 9] getSwordDirection_agreeXY [OF assms]
  by (auto simp: getGripPoints_def subVector_def)

lemma agreeXY_liftZ: "agreeXY hand (liftZ c hand)"
  by (simp add: agreeXY_def liftZ_def comp_def)

text \<open>
  Claim C10. The geometry kernel reads only \<open>x\<close> and \<open>y\<close>: \<open>getDistance\<close> gives the same
  value on landmarks that agree on \<open>x\<close> and \<open>y\<close>, and on two hands whose landmarks agree
  on \<open>x\<close> and \<open>y\<close> (whatever their \<open>z\<close>) \<open>isFist\<close>, \<open>getHandCenter\<close>,
  \<open>getSwordDirection\<close> and \<open>getGripPoints\<close> return identical results.
\<close>

theorem geometry_reads_only_xy:
  fixes p q p' q' :: Landmark
  shows "(x p' = x p \<and> y p' = y p \<and> x q' = x q \<and> y q' = y q \<longrightarrow>
            getDistance p' q' = getDistance p q) \<and>
         (agreeXY hand hand' \<longrightarrow>
            isFist hand' = isFist hand \<and>
            getHandCenter hand' = getHandCenter hand \<and>
            getSwordDirection hand' = getSwordDirection hand \<and>
            getGripPoints hand' = getGripPoints hand)"
  by (simp add: getDistance_def isFist_agreeXY getHandCenter_agreeXY
      getSwordDirection_agreeXY getGripPoints_agreeXY)

theorem geometry_reads_only_xy_witness:
  "agreeXY fistHandL (liftZ 7 fistHandL) \<and>
   map z (landmarks (liftZ 7 fistHandL)) \<noteq> map z (landmarks fistHandL) \<and>
   isFist (liftZ 7 fistHandL) = Some True \<and>
   getHandCenter (liftZ 7 fistHandL) = getHandCenter fistHandL \<and>
   getSwordDirection (liftZ 7 fistHandL) = getSwordDirection fistHandL \<and>
   getGripPoints (liftZ 7 fistHandL) = getGripPoints fistHandL \<and>
   getDistance \<lparr>x = 0, y = 0, z = 5\<rparr> \<lparr>x = 2, y = 0, z = - 1\<rparr>
     = getDistance \<lparr>x = 0, y = 0, z = 0\<rparr> \<lparr>x = 2, y = 0, z = 0\<rparr>"
proof -
  have differ: "map z (landmarks (liftZ 7 fistHandL)) \<noteq> map z (landmarks fistHandL)"
    by (simp add: liftZ_def fistHandL_def handOfXs_def fistXs_def)
  from geometry_reads_only_xy [of "\<lparr>x = 0, y = 0, z = 5\<rparr>" "\<lparr>x = 0, y = 0, z = 0\<rparr>"
      "\<lparr>x = 2, y = 0, z = - 1\<rparr>" "\<lparr>x = 2, y = 0, z = 0\<rparr>" fistHandL "liftZ 7 fistHandL"]
    agreeXY_liftZ [of fistHandL 7] differ
  show ?thesis by (simp add: isFist_fistHandL)
qed

section \<open>Facts about the collision helpers\<close>

lemma getLineIntersection_parallel:
  "parallelSegs a0 a1 b0 b1 \<Longrightarrow> getLineIntersection a0 a1 b0 b1 = None"
  by (simp add: getLineIntersection_def parallelSegs_def Let_def algebra_simps)

lemma getLineIntersection_sound:
  assumes "getLineIntersection a0 a1 b0 b1 = Some pt"
  shows "\<exists>s t. 0 \<le> s \<and> s \<le> 1 \<and> 0 \<le> t \<and> t \<le> 1 \<and> pt = pointAt a0 a1 t \<and> pt = pointAt b0 b1 s"
proof -
  define s1x where "s1x = x a1 - x a0"
  define s1y where "s1y = y a1 - y a0"
  define s2x where "s2x = x b1 - x b0"
  define s2y where "s2y = y b1 - y b0"
  define dx where "dx = x a0 - x b0"
  define dy where "dy = y a0 - y b0"
  define denom where "denom = - s2x * s1y + s1x * s2y"
  define s where "s = (- s1y * dx + s1x * dy) / denom"
  define t where "t = (s2x * dy - s2y * dx) / denom"
  have unfold: "getLineIntersection a0 a1 b0 b1 =
      (if denom = 0 then None
       else if s \<ge> 0 \<and> s \<le> 1 \<and> t \<ge> 0 \<and> t \<le> 1
            then Some \<lparr>x = x a0 + (t * s1x), y = y a0 + (t * s1y)\<rparr> else None)"
    unfolding getLineIntersection_def Let_def s_def t_def denom_def
      s1x_def s1y_def s2x_def s2y_def dx_def dy_def ..
  have nz: "denom \<noteq> 0"
    using assms unfolding unfold by (auto split: if_splits)
  have rng: "0 \<le> s \<and> s \<le> 1 \<and> 0 \<le> t \<and> t \<le> 1"
    using assms unfolding unfold by (auto split: if_splits)
  have pt: "pt = pointAt a0 a1 t"
    using assms unfolding unfold pointAt_def s1x_def s1y_def by (auto split: if_splits)
  have ex: "t * s1x * denom + dx * denom = s * s2x * denom"
    using nz unfolding s_def t_def by (simp add: denom_def) algebra
  have ey: "t * s1y * denom + dy * denom = s * s2y * denom"
    using nz unfolding s_def t_def by (simp add: denom_def) algebra
  from ex have "(t * s1x + dx) * denom = (s * s2x) * denom" by (simp add: algebra_simps)
  with nz have ex': "t * s1x + dx = s * s2x" by simp
  from ey have "(t * s1y + dy) * denom = (s * s2y) * denom" by (simp add: algebra_simps)
  with nz have ey': "t * s1y + dy = s * s2y" by simp
  have "pointAt a0 a1 t = pointAt b0 b1 s"
    using ex' ey' unfolding pointAt_def s1x_def s1y_def s2x_def s2y_def dx_def dy_def
    by (simp add: algebra_simps)
  with pt have "pt = pointAt b0 b1 s" by simp
  with rng pt show ?thesis by blast
qed

lemma getLineIntersection_complete:
  assumes np: "\<not> parallelSegs a0 a1 b0 b1"
      and rng: "0 \<le> s" "s \<le> 1" "0 \<le> t" "t \<le> 1"
      and eq: "pointAt a0 a1 t = pointAt b0 b1 s"
  shows "getLineIntersection a0 a1 b0 b1 = Some (pointAt a0 a1 t)"
proof -
  define s1x where "s1x = x a1 - x a0"
  define s1y where "s1y = y a1 - y a0"
  define s2x where "s2x = x b1 - x b0"
  define s2y where "s2y = y b1 - y b0"
  define dx where "dx = x a0 - x b0"
  define dy where "dy = y a0 - y b0"
  define denom where "denom = - s2x * s1y + s1x * s2y"
  have nz: "denom \<noteq> 0"
    using np by (simp add: parallelSegs_def denom_def s1x_def s1y_def s2x_def s2y_def algebra_simps)
  have ex: "dx = s * s2x - t * s1x" and ey: "dy = s * s2y - t * s1y"
    using eq unfolding pointAt_def s1x_def s1y_def s2x_def s2y_def dx_def dy_def
    by (simp_all add: algebra_simps)
  have "- s1y * dx + s1x * dy = s * denom"
    unfolding ex ey denom_def by (simp add: algebra_simps)
  then have s: "(- s1y * dx + s1x * dy) / denom = s" using nz by simp
  have "s2x * dy - s2y * dx = t * denom"
    unfolding ex ey denom_def by (simp add: algebra_simps)
  then have t: "(s2x * dy - s2y * dx) / denom = t" using nz by simp
  have unfold: "getLineIntersection a0 a1 b0 b1 =
      (let s' = (- s1y * dx + s1x * dy) / denom; t' = (s2x * dy - s2y * dx) / denom in
       if denom = 0 then None
       else if s' \<ge> 0 \<and> s' \<le> 1 \<and> t' \<ge> 0 \<and> t' \<le> 1
            then Some \<lparr>x = x a0 + (t' * s1x), y = y a0 + (t' * s1y)\<rparr> else None)"
    unfolding getLineIntersection_def Let_def denom_def
      s1x_def s1y_def s2x_def s2y_def dx_def dy_def ..
  show ?thesis
    unfolding unfold Let_def s t using nz rng
    by (simp add: pointAt_def s1x_def s1y_def)
qed

text \<open>
  Claim C7. \<open>getLineIntersection\<close> returns nothing for parallel segments (collinear and
  overlapping ones included); a point it returns lies on both segments, at parameters in
  \<open>[0, 1]\<close>, and equals \<open>p0 + t * (p1 - p0)\<close>; and for non-parallel segments every
  common point with both parameters in \<open>[0, 1]\<close> is returned.
\<close>

theorem getLineIntersection_spec:
  "(parallelSegs a0 a1 b0 b1 \<longrightarrow> getLineIntersection a0 a1 b0 b1 = None) \<and>
   (\<forall>pt. getLineIntersection a0 a1 b0 b1 = Some pt \<longrightarrow>
      (\<exists>s t. 0 \<le> s \<and> s \<le> 1 \<and> 0 \<le> t \<and> t \<le> 1 \<and>
             pt = pointAt a0 a1 t \<and> pt = pointAt b0 b1 s)) \<and>
   (\<forall>s t. \<not> parallelSegs a0 a1 b0 b1 \<and> 0 \<le> s \<and> s \<le> 1 \<and> 0 \<le> t \<and> t \<le> 1 \<and>
          pointAt a0 a1 t = pointAt b0 b1 s \<longrightarrow>
      getLineIntersection a0 a1 b0 b1 = Some (pointAt a0 a1 t))"
  using getLineIntersection_parallel getLineIntersection_sound getLineIntersection_complete
  by blast

theorem getLineIntersection_spec_witness:
  "\<not> parallelSegs (p1 crossA) (p2 crossA) (p1 crossB) (p2 crossB) \<and>
   pointAt (p1 crossA) (p2 crossA) (1 / 2) = pointAt (p1 crossB) (p2 crossB) (1 / 2) \<and>
   getLineIntersection (p1 crossA) (p2 crossA) (p1 crossB) (p2 crossB) = Some \<lparr>x = 100, y = 100\<rparr> \<and>
   (\<exists>s t. 0 \<le> s \<and> s \<le> 1 \<and> 0 \<le> t \<and> t \<le> 1 \<and>
          \<lparr>x = 100, y = 100\<rparr> = pointAt (p1 crossA) (p2 crossA) t \<and>
          \<lparr>x = 100, y = 100\<rparr> = pointAt (p1 crossB) (p2 crossB) s) \<and>
   parallelSegs (p1 nearA) (p2 nearA) (p1 nearB) (p2 nearB) \<and>
   getLineIntersection (p1 nearA) (p2 nearA) (p1 nearB) (p2 nearB) = None \<and>
   parallelSegs (p1 nearA) (p2 nearA) (p1 nearA) (p2 nearA) \<and>
   getLineIntersection (p1 nearA) (p2 nearA) (p1 nearA) (p2 nearA) = None"
proof -
  have np: "\<not> parallelSegs (p1 crossA) (p2 crossA) (p1 crossB) (p2 crossB)"
    by (simp add: parallelSegs_def crossA_def crossB_def)
  have meet: "pointAt (p1 crossA) (p2 crossA) (1 / 2) = pointAt (p1 crossB) (p2 crossB) (1 / 2)"
    by (simp add: pointAt_def crossA_def crossB_def)
  have at: "pointAt (p1 crossA) (p2 crossA) (1 / 2) = \<lparr>x = 100, y = 100\<rparr>"
    by (simp add: pointAt_def crossA_def)
  have par: "parallelSegs (p1 nearA) (p2 nearA) (p1 nearB) (p2 nearB)"
    "parallelSegs (p1 nearA) (p2 nearA) (p1 nearA) (p2 nearA)"
    by (simp_all add: parallelSegs_def nearA_def nearB_def)
  note cross = getLineIntersection_spec [of "p1 crossA" "p2 crossA" "p1 crossB" "p2 crossB"]
  have found: "getLineIntersection (p1 crossA) (p2 crossA) (p1 crossB) (p2 crossB)
        = Some \<lparr>x = 100, y = 100\<rparr>"
    using cross np meet at by (elim conjE allE [of _ "1 / 2"]) simp
  with cross have "\<exists>s t. 0 \<le> s \<and> s \<le> 1 \<and> 0 \<le> t \<and> t \<le> 1 \<and>
          \<lparr>x = 100, y = 100\<rparr> = pointAt (p1 crossA) (p2 crossA) t \<and>
          \<lparr>x = 100, y = 100\<rparr> = pointAt (p1 crossB) (p2 crossB) s"
    by blast
  with getLineIntersection_spec [of "p1 nearA" "p2 nearA" "p1 nearB" "p2 nearB"]
    getLineIntersection_spec [of "p1 nearA" "p2 nearA" "p1 nearA" "p2 nearA"] np meet found par
  show ?thesis by simp
qed

lemma clamp_nearest:
  fixes t0 u :: real
  assumes "0 \<le> u" "u \<le> 1"
  shows "(max 0 (min 1 t0) - t0)\<^sup>2 \<le> (u - t0)\<^sup>2"
proof -
  have "\<bar>max 0 (min 1 t0) - t0\<bar> \<le> \<bar>u - t0\<bar>"
    using assms by (auto simp: max_def min_def abs_if)
  then show ?thesis by (rule abs_le_square_iff [THEN iffD1])
qed

lemma getDistance_pointAt:
  "getDistance p (pointAt v w u) =
     sqrt ((x p - x v - u * (x w - x v))\<^sup>2 + (y p - y v - u * (y w - y v))\<^sup>2)"
proof -
  have "(x v + u * (x w - x v) - x p)\<^sup>2 = (x p - x v - u * (x w - x v))\<^sup>2"
       "(y v + u * (y w - y v) - y p)\<^sup>2 = (y p - y v - u * (y w - y v))\<^sup>2"
    by (simp_all add: power2_eq_square algebra_simps)
  then show ?thesis by (simp add: getDistance_def pointAt_def)
qed

lemma distToSegment_clamped:
  "distToSegment p v w =
     getDistance p (pointAt v w
       (max 0 (min 1 (((x p - x v) * (x w - x v) + (y p - y v) * (y w - y v)) /
                      ((x w - x v)\<^sup>2 + (y w - y v)\<^sup>2)))))"
proof (cases "(x w - x v)\<^sup>2 + (y w - y v)\<^sup>2 = 0")
  case True
  then have "x w - x v = 0" "y w - y v = 0"
    by (simp_all add: sum_power2_eq_zero_iff)
  with True show ?thesis
    by (simp add: distToSegment_def getDistance_pointAt)
next
  case False
  then show ?thesis
    by (simp add: distToSegment_def getDistance_pointAt Let_def diff_diff_eq)
qed

lemma distToSegment_least:
  assumes u: "0 \<le> u" "u \<le> 1"
  shows "distToSegment p v w \<le> getDistance p (pointAt v w u)"
proof -
  define dx where "dx = x w - x v"
  define dy where "dy = y w - y v"
  define ex where "ex = x p - x v"
  define ey where "ey = y p - y v"
  define l2 where "l2 = dx\<^sup>2 + dy\<^sup>2"
  define t0 where "t0 = (ex * dx + ey * dy) / l2"
  define tc where "tc = max 0 (min 1 t0)"
  have l2_nonneg: "0 \<le> l2" by (simp add: l2_def)
  have lhs: "distToSegment p v w = sqrt ((ex - tc * dx)\<^sup>2 + (ey - tc * dy)\<^sup>2)"
    unfolding distToSegment_clamped getDistance_pointAt
    by (simp add: tc_def t0_def l2_def dx_def dy_def ex_def ey_def)
  have rhs: "getDistance p (pointAt v w u) = sqrt ((ex - u * dx)\<^sup>2 + (ey - u * dy)\<^sup>2)"
    unfolding getDistance_pointAt by (simp add: dx_def dy_def ex_def ey_def)
  have "(ex - tc * dx)\<^sup>2 + (ey - tc * dy)\<^sup>2 \<le> (ex - u * dx)\<^sup>2 + (ey - u * dy)\<^sup>2"
  proof (cases "l2 = 0")
    case True
    then have "dx = 0" "dy = 0" by (simp_all add: l2_def sum_power2_eq_zero_iff)
    then show ?thesis by simp
  next
    case False
    then have dot: "ex * dx + ey * dy = l2 * t0" by (simp add: t0_def)
    have expand: "(ex - a * dx)\<^sup>2 + (ey - a * dy)\<^sup>2
                  = l2 * (a - t0)\<^sup>2 + (ex\<^sup>2 + ey\<^sup>2 - l2 * t0\<^sup>2)" for a
    proof -
      have "(ex - a * dx)\<^sup>2 + (ey - a * dy)\<^sup>2
            = ex\<^sup>2 + ey\<^sup>2 - 2 * a * (ex * dx + ey * dy) + a\<^sup>2 * l2"
        by (simp add: l2_def power2_eq_square algebra_simps)
      also have "\<dots> = ex\<^sup>2 + ey\<^sup>2 - 2 * a * (l2 * t0) + a\<^sup>2 * l2"
        by (simp only: dot)
      also have "\<dots> = l2 * (a - t0)\<^sup>2 + (ex\<^sup>2 + ey\<^sup>2 - l2 * t0\<^sup>2)"
        by (simp add: power2_eq_square algebra_simps)
      finally show ?thesis .
    qed
    have "(tc - t0)\<^sup>2 \<le> (u - t0)\<^sup>2"
      unfolding tc_def using u by (rule clamp_nearest)
    then have "l2 * (tc - t0)\<^sup>2 \<le> l2 * (u - t0)\<^sup>2"
      using l2_nonneg by (rule mult_left_mono)
    then show ?thesis by (simp add: expand)
  qed
  then show ?thesis unfolding lhs rhs by simp
qed

lemma distToSegment_within:
  "distToSegment p v w < r \<longleftrightarrow> (\<exists>u. 0 \<le> u \<and> u \<le> 1 \<and> getDistance p (pointAt v w u) < r)"
proof
  assume "distToSegment p v w < r"
  then show "\<exists>u. 0 \<le> u \<and> u \<le> 1 \<and> getDistance p (pointAt v w u) < r"
    unfolding distToSegment_clamped
    by (intro exI [of _ "max 0 (min 1 (((x p - x v) * (x w - x v) + (y p - y v) * (y w - y v)) /
                      ((x w - x v)\<^sup>2 + (y w - y v)\<^sup>2)))"]) simp
next
  assume "\<exists>u. 0 \<le> u \<and> u \<le> 1 \<and> getDistance p (pointAt v w u) < r"
  then obtain u where "0 \<le> u" "u \<le> 1" "getDistance p (pointAt v w u) < r" by blast
  with distToSegment_least [of u p v w] show "distToSegment p v w < r" by simp
qed

lemma clashPoint_hit:
  "getLineIntersection (p1 s1) (p2 s1) (p1 s2) (p2 s2) = Some pt \<Longrightarrow> clashPoint s1 s2 = Some pt"
  by (simp add: clashPoint_def)

lemma clashPoint_near:
  "getLineIntersection (p1 s1) (p2 s1) (p1 s2) (p2 s2) = None \<Longrightarrow>
   clashPoint s1 s2 =
     (if distToSegment (p2 s1) (p1 s2) (p2 s2) < 50 then Some (p2 s1)
      else if distToSegment (p2 s2) (p1 s1) (p2 s1) < 50 then Some (p2 s2)
      else None)"
  by (simp add: clashPoint_def Let_def)

text \<open>
  Claim C6. The clash test has two tiers. If the two segments intersect, the clash point is
  the intersection point. Otherwise a clash is reported exactly when the tip of one blade is
  less than 50 units from the other blade's segment, the first blade's tip being tried
  first, and the clash point is that tip. The distance used is the least distance from the
  tip to a point of the segment, so "less than 50 from the segment" means that some point of
  the segment is less than 50 away.
\<close>

theorem blade_clash_two_tier:
  "(\<forall>pt. getLineIntersection (p1 s1) (p2 s1) (p1 s2) (p2 s2) = Some pt \<longrightarrow>
      clashPoint s1 s2 = Some pt) \<and>
   (getLineIntersection (p1 s1) (p2 s1) (p1 s2) (p2 s2) = None \<longrightarrow>
      clashPoint s1 s2 =
        (if distToSegment (p2 s1) (p1 s2) (p2 s2) < 50 then Some (p2 s1)
         else if distToSegment (p2 s2) (p1 s1) (p2 s1) < 50 then Some (p2 s2)
         else None)) \<and>
   ((clashPoint s1 s2 \<noteq> None) =
      (getLineIntersection (p1 s1) (p2 s1) (p1 s2) (p2 s2) \<noteq> None \<or>
       distToSegment (p2 s1) (p1 s2) (p2 s2) < 50 \<or>
       distToSegment (p2 s2) (p1 s1) (p2 s1) < 50)) \<and>
   ((distToSegment (p2 s1) (p1 s2) (p2 s2) < 50) =
      (\<exists>u. 0 \<le> u \<and> u \<le> 1 \<and> getDistance (p2 s1) (pointAt (p1 s2) (p2 s2) u) < 50)) \<and>
   ((distToSegment (p2 s2) (p1 s1) (p2 s1) < 50) =
      (\<exists>u. 0 \<le> u \<and> u \<le> 1 \<and> getDistance (p2 s2) (pointAt (p1 s1) (p2 s1) u) < 50))"
proof (intro conjI allI impI)
  show "(clashPoint s1 s2 \<noteq> None) =
      (getLineIntersection (p1 s1) (p2 s1) (p1 s2) (p2 s2) \<noteq> None \<or>
       distToSegment (p2 s1) (p1 s2) (p2 s2) < 50 \<or>
       distToSegment (p2 s2) (p1 s1) (p2 s1) < 50)"
    by (cases "getLineIntersection (p1 s1) (p2 s1) (p1 s2) (p2 s2)")
       (simp_all add: clashPoint_hit clashPoint_near)
qed (simp_all add: clashPoint_hit clashPoint_near distToSegment_within)

theorem blade_clash_two_tier_witness:
  "getLineIntersection (p1 nearA) (p2 nearA) (p1 nearB) (p2 nearB) = None \<and>
   distToSegment (p2 nearA) (p1 nearB) (p2 nearB) < 50 \<and>
   clashPoint nearA nearB = Some \<lparr>x = 300, y = 100\<rparr> \<and>
   getLineIntersection (p1 crossA) (p2 crossA) (p1 crossB) (p2 crossB) = Some \<lparr>x = 100, y = 100\<rparr> \<and>
   clashPoint crossA crossB = Some \<lparr>x = 100, y = 100\<rparr>"
proof -
  have none: "getLineIntersection (p1 nearA) (p2 nearA) (p1 nearB) (p2 nearB) = None"
    by (simp add: getLineIntersection_def nearA_def nearB_def)
  have near: "distToSegment (p2 nearA) (p1 nearB) (p2 nearB) < 50"
    by (simp add: distToSegment_def nearA_def nearB_def Let_def)
  have some: "getLineIntersection (p1 crossA) (p2 crossA) (p1 crossB) (p2 crossB)
              = Some \<lparr>x = 100, y = 100\<rparr>"
    by (simp add: getLineIntersection_def crossA_def crossB_def Let_def)
  have tip: "p2 nearA = \<lparr>x = 300, y = 100\<rparr>" by (simp add: nearA_def)
  from blade_clash_two_tier [of nearA nearB] blade_clash_two_tier [of crossA crossB]
    none near some tip
  show ?thesis by simp
qed

section \<open>Facts about the duel hit test\<close>

lemma checkHit_miss:
  "\<not> hitLands now w h seg face r side g \<Longrightarrow> checkHit now w h seg face r side g = g"
  by (auto simp: checkHit_def hitLands_def Let_def split: option.splits prod.splits)

lemma checkHit_hit_player:
  assumes "hitLands now w h seg face r side g"
  shows "getPlayer r (checkHit now w h seg face r side g)
         = (getPlayer r g)\<lparr>hp := max 0 (hp (getPlayer r g) - 8), lastHitTime := now\<rparr>"
    and "getPlayer (otherRef r) (checkHit now w h seg face r side g) = getPlayer (otherRef r) g"
  using assms
  by (cases r; auto simp: checkHit_def hitLands_def Let_def getPlayer_def setPlayer_def otherRef_def
        split: option.splits prod.splits)+

lemma checkHit_hit_end:
  assumes "hitLands now w h seg face r side g" "hp (getPlayer r g) \<le> 8"
  shows "duelStateRef (checkHit now w h seg face r side g) = DUEL_ENDED"
    and "duelWinner (checkHit now w h seg face r side g)
         = Some (if id_player (getPlayer r g) = 1 then 2 else 1)"
  using assms
  by (cases r; auto simp: checkHit_def hitLands_def Let_def getPlayer_def setPlayer_def
        split: option.splits prod.splits)+

lemma checkHit_hit_continue:
  assumes "hitLands now w h seg face r side g" "8 < hp (getPlayer r g)"
  shows "duelStateRef (checkHit now w h seg face r side g) = duelStateRef g"
    and "duelWinner (checkHit now w h seg face r side g) = duelWinner g"
  using assms
  by (cases r; auto simp: checkHit_def hitLands_def Let_def getPlayer_def setPlayer_def
        split: option.splits prod.splits)+

lemma hitLands_window:
  "now - lastHitTime (getPlayer r g) < 500 \<Longrightarrow> \<not> hitLands now w h seg face r side g"
  by (auto simp: hitLands_def split: option.splits)

lemma checkHit_sword_fields:
  "swordState (getPlayer r' (checkHit now w h seg face r side g)) = swordState (getPlayer r' g) \<and>
   swordProgress (getPlayer r' (checkHit now w h seg face r side g)) = swordProgress (getPlayer r' g) \<and>
   swordHand (getPlayer r' (checkHit now w h seg face r side g)) = swordHand (getPlayer r' g)"
  by (cases r; cases r')
     (auto simp: checkHit_def Let_def getPlayer_def setPlayer_def split: option.splits prod.splits)

text \<open>
  Claim C5. A call of \<open>checkHit\<close> without a blade, or within 500 ms of the defender's last
  successful hit, or whose blade misses the hit box, changes nothing. A hit that lands
  takes 8 hit points from the defender, stopping at 0 (so exactly 8 whenever the defender
  had at least 8), records the time of the hit and leaves the other player untouched; when
  the defender reaches 0 the match state becomes \<open>DUEL_ENDED\<close> and the winner is the other
  player, otherwise the match state is unchanged; and every further call for the same
  defender less than 500 ms after the hit changes nothing.
\<close>

theorem checkHit_spec:
  fixes now :: int and w h :: real and seg :: "Segment option" and face :: "Face option"
    and r :: PlayerRef and side :: bool and g :: Game
  defines "g' \<equiv> checkHit now w h seg face r side g"
  shows "(seg = None \<or> now - lastHitTime (getPlayer r g) < 500 \<longrightarrow> g' = g) \<and>
         (\<not> hitLands now w h seg face r side g \<longrightarrow> g' = g) \<and>
         (hitLands now w h seg face r side g \<longrightarrow>
            hp (getPlayer r g') = max 0 (hp (getPlayer r g) - 8) \<and>
            (8 \<le> hp (getPlayer r g) \<longrightarrow> hp (getPlayer r g') = hp (getPlayer r g) - 8) \<and>
            0 \<le> hp (getPlayer r g') \<and>
            lastHitTime (getPlayer r g') = now \<and>
            getPlayer (otherRef r) g' = getPlayer (otherRef r) g \<and>
            (hp (getPlayer r g') = 0 \<longrightarrow>
               duelStateRef g' = DUEL_ENDED \<and>
               (idsInPlace g \<longrightarrow> duelWinner g' = Some (id_player (getPlayer (otherRef r) g)))) \<and>
            (0 < hp (getPlayer r g') \<longrightarrow> duelStateRef g' = duelStateRef g) \<and>
            (\<forall>now' w' h' seg' face' side'. now' - now < 500 \<longrightarrow>
               checkHit now' w' h' seg' face' r side' g' = g'))"
proof (intro conjI impI)
  show "g' = g" if "seg = None \<or> now - lastHitTime (getPlayer r g) < 500"
    using that unfolding g'_def
    by (intro checkHit_miss) (auto simp: hitLands_def split: option.splits)
  show "g' = g" if "\<not> hitLands now w h seg face r side g"
    using that unfolding g'_def by (rule checkHit_miss)
next
  assume hit: "hitLands now w h seg face r side g"
  note pl = checkHit_hit_player [OF hit, folded g'_def]
  show hp': "hp (getPlayer r g') = max 0 (hp (getPlayer r g) - 8)" by (simp add: pl)
  show "hp (getPlayer r g') = hp (getPlayer r g) - 8" if "8 \<le> hp (getPlayer r g)"
    using that by (simp add: pl)
  show "0 \<le> hp (getPlayer r g')" by (simp add: pl)
  show last: "lastHitTime (getPlayer r g') = now" by (simp add: pl)
  show "getPlayer (otherRef r) g' = getPlayer (otherRef r) g" by (simp add: pl)
  show "duelStateRef g' = DUEL_ENDED" if "hp (getPlayer r g') = 0"
    using that hp' checkHit_hit_end(1) [OF hit, folded g'_def] by (simp add: max_def split: if_splits)
  show "duelWinner g' = Some (id_player (getPlayer (otherRef r) g))"
    if "hp (getPlayer r g') = 0" "idsInPlace g"
  proof -
    have "hp (getPlayer r g) \<le> 8" using that(1) hp' by (simp add: max_def split: if_splits)
    from checkHit_hit_end(2) [OF hit this, folded g'_def] that(2) show ?thesis
      by (cases r) (simp_all add: idsInPlace_def getPlayer_def otherRef_def)
  qed
  show "duelStateRef g' = duelStateRef g" if "0 < hp (getPlayer r g')"
  proof -
    have "8 < hp (getPlayer r g)" using that hp' by (simp add: max_def split: if_splits)
    from checkHit_hit_continue(1) [OF hit this, folded g'_def] show ?thesis .
  qed
  show "\<forall>now' w' h' seg' face' side'. now' - now < 500 \<longrightarrow>
          checkHit now' w' h' seg' face' r side' g' = g'"
    using last by (auto intro!: checkHit_miss hitLands_window)
qed


theorem checkHit_spec_witness:
  "hitLands 5000 1280 720 (Some bladeSeg) None Player2 True fightGame \<and>
   idsInPlace fightGame \<and>
   hp (getPlayer Player2 fightGame) = 4 \<and>
   hp (getPlayer Player2 (checkHit 5000 1280 720 (Some bladeSeg) None Player2 True fightGame)) = 0 \<and>
   duelStateRef (checkHit 5000 1280 720 (Some bladeSeg) None Player2 True fightGame) = DUEL_ENDED \<and>
   duelWinner (checkHit 5000 1280 720 (Some bladeSeg) None Player2 True fightGame) = Some 1 \<and>
   checkHit 5100 1280 720 (Some bladeSeg) None Player2 True
     (checkHit 5000 1280 720 (Some bladeSeg) None Player2 True fightGame)
   = checkHit 5000 1280 720 (Some bladeSeg) None Player2 True fightGame \<and>
   checkHit 4400 1280 720 (Some bladeSeg) None Player2 True fightGame = fightGame \<and>
   hitLands 5000 1280 720 (Some counterSeg) None Player1 False fightGame \<and>
   hp (getPlayer Player1 fightGame) = 100 \<and>
   hp (getPlayer Player1 (checkHit 5000 1280 720 (Some counterSeg) None Player1 False fightGame)) = 92 \<and>
   duelStateRef (checkHit 5000 1280 720 (Some counterSeg) None Player1 False fightGame)
   = DUEL_FIGHTING"
proof -
  have lands: "hitLands 5000 1280 720 (Some bladeSeg) None Player2 True fightGame"
    "hitLands 5000 1280 720 (Some counterSeg) None Player1 False fightGame"
    by (simp_all add: hitLands_def hitBox_def lineRectCollide_def bladeSeg_def counterSeg_def
        fightGame_def initialGame_def initialPlayer_def getPlayer_def Let_def)
  have ids: "idsInPlace fightGame"
    by (simp add: idsInPlace_def fightGame_def initialGame_def initialPlayer_def)
  have before: "hp (getPlayer Player2 fightGame) = 4"
    "lastHitTime (getPlayer Player2 fightGame) = 4000"
    "hp (getPlayer Player1 fightGame) = 100"
    "duelStateRef fightGame = DUEL_FIGHTING"
    by (simp_all add: fightGame_def initialGame_def initialPlayer_def getPlayer_def)
  have other: "id_player (getPlayer (otherRef Player2) fightGame) = 1"
    by (simp add: otherRef_def getPlayer_def fightGame_def initialGame_def initialPlayer_def)
  from checkHit_spec [where now = 5000 and w = 1280 and h = 720 and seg = "Some bladeSeg"
        and face = None and r = Player2 and side = True and g = fightGame]
    checkHit_spec [where now = 4400 and w = 1280 and h = 720 and seg = "Some bladeSeg"
        and face = None and r = Player2 and side = True and g = fightGame]
    checkHit_spec [where now = 5000 and w = 1280 and h = 720 and seg = "Some counterSeg"
        and face = None and r = Player1 and side = False and g = fightGame]
    lands ids before other
  show ?thesis by simp
qed

section \<open>Facts about the sword state machines\<close>

lemma processDuelPlayer_bounds:
  assumes "processDuelPlayer now p hs = Some p'" "duelBounds p"
  shows "duelBounds p'"
  using assms
  by (cases "swordState p")
     (auto simp: processDuelPlayer_def duelBounds_def Let_def
           split: bind_splits option.splits if_splits)

lemma soloHeld_bounds:
  assumes "soloHeld now sh fh g = Some g'" "soloBounds g" "gameStateRef g \<noteq> IDLE"
  shows "soloBounds g'"
  using assms
  by (auto simp: soloHeld_def soloBounds_def Let_def
           split: bind_splits option.splits if_splits bool.splits)

lemma processSoloPlayer_bounds:
  assumes "processSoloPlayer now hs g = Some g'" "soloBounds g"
  shows "soloBounds g'"
proof (cases "gameStateRef g")
  case IDLE
  with assms show ?thesis
    by (auto simp: processSoloPlayer_def soloBounds_def Let_def split: bind_splits option.splits)
next
  case DISSOLVING
  with assms show ?thesis
    by (auto simp: processSoloPlayer_def soloBounds_def Let_def split: if_splits)
qed (use assms in \<open>auto simp: processSoloPlayer_def Let_def intro: soloHeld_bounds\<close>)

lemma getHandCenter_Some:
  "21 \<le> length (landmarks hand) \<Longrightarrow> \<exists>c. getHandCenter hand = Some c"
  by (auto simp add: getHandCenter_def landmark_def)

lemma getSwordDirection_Some:
  "21 \<le> length (landmarks hand) \<Longrightarrow> \<exists>c. getSwordDirection hand = Some c"
  by (auto simp add: getSwordDirection_def landmark_def)

lemma getGripPoints_Some:
  "21 \<le> length (landmarks hand) \<Longrightarrow> \<exists>c. getGripPoints hand = Some c"
  using getSwordDirection_Some [of hand]
  by (auto simp add: getGripPoints_def landmark_def)

lemma findThrowing_isFist_Some:
  "list_all (\<lambda>hand. 21 \<le> length (landmarks hand)) hs \<Longrightarrow> \<exists>r. findThrowing isFist hs = Some r"
proof (induction hs)
  case Nil
  then show ?case by simp
next
  case (Cons a hs)
  then obtain b where "isFist a = Some b" using isFist_Some [of a] by auto
  with Cons show ?case by (cases b) auto
qed

lemma find_wellFormed:
  "list_all Q hs \<Longrightarrow> find P hs = Some a \<Longrightarrow> Q a"
  by (induction hs) (auto split: if_splits)

lemma presentAndFist_Some:
  assumes "list_all (\<lambda>hand. 21 \<le> length (landmarks hand)) hs"
  shows "\<exists>b. presentAndFist (find P hs) = Some b"
proof (cases "find P hs")
  case None
  then show ?thesis by (auto simp add: presentAndFist_def)
next
  case (Some a)
  with assms have "21 \<le> length (landmarks a)" by (rule find_wellFormed)
  with Some show ?thesis by (simp add: presentAndFist_def isFist_Some)
qed

lemma processDuelPlayer_total:
  assumes wf: "list_all (\<lambda>hand. 21 \<le> length (landmarks hand)) hs"
  shows "\<exists>p'. processDuelPlayer now p hs = Some p'"
proof -
  let ?sh = "find (\<lambda>h. Some (handedness h) = swordHand p) hs"
  obtain r where r: "findThrowing isFist hs = Some r"
    using findThrowing_isFist_Some [OF wf] by auto
  obtain b where b: "presentAndFist ?sh = Some b"
    using presentAndFist_Some [OF wf] by blast
  have gp: "\<exists>c. getGripPoints a = Some c" if "?sh = Some a" for a
    using find_wellFormed [OF wf that] by (rule getGripPoints_Some)
  show ?thesis
  proof (cases "?sh")
    case None
    with r b show ?thesis
      by (cases "swordState p") (auto simp: processDuelPlayer_def Let_def presentAndFist_def)
  next
    case (Some a)
    then obtain c where "getGripPoints a = Some c" using gp by blast
    with Some r b show ?thesis
      by (cases "swordState p") (auto simp: processDuelPlayer_def Let_def)
  qed
qed

lemma soloHeld_total:
  assumes "\<And>a. sh = Some a \<Longrightarrow> 21 \<le> length (landmarks a)"
      and "\<And>a. fh = Some a \<Longrightarrow> 21 \<le> length (landmarks a)"
  shows "\<exists>g'. soloHeld now sh fh g = Some g'"
proof (cases sh)
  case None
  then show ?thesis
    by (auto simp: soloHeld_def presentAndFist_def Let_def split: bool.splits option.splits)
next
  case sh: (Some a)
  then obtain b c gp where a: "isFist a = Some b" "getHandCenter a = Some c" "getGripPoints a = Some gp"
    using assms(1) isFist_Some [of a] getHandCenter_Some [of a] getGripPoints_Some [of a] by blast
  show ?thesis
  proof (cases fh)
    case None
    with sh a show ?thesis
      by (auto simp: soloHeld_def presentAndFist_def Let_def split: bool.splits option.splits)
  next
    case (Some a')
    then obtain c' where "getHandCenter a' = Some c'"
      using assms(2) getHandCenter_Some [of a'] by blast
    with Some sh a show ?thesis
      by (auto simp: soloHeld_def presentAndFist_def Let_def split: bool.splits option.splits)
  qed
qed

lemma processSoloPlayer_total:
  assumes wf: "list_all (\<lambda>hand. 21 \<le> length (landmarks hand)) hs"
  shows "\<exists>g'. processSoloPlayer now hs g = Some g'"
proof -
  obtain r where r: "findThrowing isFist hs = Some r"
    using findThrowing_isFist_Some [OF wf] by auto
  have held: "\<exists>g'. soloHeld now (find (\<lambda>h. Some (handedness h) = swordHandRef g) hs)
                 (find (\<lambda>h. Some (handedness h) \<noteq> swordHandRef g) hs) g = Some g'"
    by (rule soloHeld_total) (erule find_wellFormed [OF wf])+
  show ?thesis
    using r held by (cases "gameStateRef g") (auto simp: processSoloPlayer_def Let_def)
qed

lemma runDuelPlayer_bounds:
  "runDuelPlayer p frames = Some p' \<Longrightarrow> duelBounds p \<Longrightarrow> duelBounds p'"
  by (induction frames arbitrary: p) (auto split: option.splits dest: processDuelPlayer_bounds)

lemma runSoloPlayer_bounds:
  "runSoloPlayer g frames = Some g' \<Longrightarrow> soloBounds g \<Longrightarrow> soloBounds g'"
  by (induction frames arbitrary: g) (auto split: option.splits dest: processSoloPlayer_bounds)

lemma runDuelPlayer_total:
  "list_all wellFormedFrame frames \<Longrightarrow> \<exists>p'. runDuelPlayer p frames = Some p'"
proof (induction frames arbitrary: p)
  case Nil
  then show ?case by simp
next
  case (Cons f frames)
  then obtain q where "processDuelPlayer (fst f) p (snd f) = Some q"
    using processDuelPlayer_total [of "snd f" "fst f" p] by (auto simp: wellFormedFrame_def)
  with Cons show ?case by simp
qed

lemma runSoloPlayer_total:
  "list_all wellFormedFrame frames \<Longrightarrow> \<exists>g'. runSoloPlayer g frames = Some g'"
proof (induction frames arbitrary: g)
  case Nil
  then show ?case by simp
next
  case (Cons f frames)
  then obtain q where "processSoloPlayer (fst f) (snd f) g = Some q"
    using processSoloPlayer_total [of "snd f" "fst f" g] by (auto simp: wellFormedFrame_def)
  with Cons show ?case by simp
qed

lemma processDuelPlayer_budget:
  assumes "processDuelPlayer now p hs = Some p'" "duelBudget k p"
  shows "duelBudget (Suc k) p'"
  using assms
  by (cases "swordState p")
     (auto simp: processDuelPlayer_def duelBudget_def Let_def algebra_simps
           split: bind_splits option.splits if_splits)

lemma runDuelPlayer_budget:
  "runDuelPlayer p frames = Some p' \<Longrightarrow> duelBudget k p \<Longrightarrow> duelBudget (k + length frames) p'"
proof (induction frames arbitrary: p k)
  case Nil
  then show ?case by simp
next
  case (Cons f frames)
  then obtain q where q: "processDuelPlayer (fst f) p (snd f) = Some q"
    "runDuelPlayer q frames = Some p'"
    by (auto split: option.splits)
  from q(1) Cons.prems(2) have "duelBudget (Suc k) q" by (rule processDuelPlayer_budget)
  with q(2) have "duelBudget (Suc k + length frames) p'" by (rule Cons.IH)
  then show ?case by simp
qed

lemmas example_simps =
  isFist_fistHandL isFist_movedFistHandL isFist_openHandL getGripPoints_fistHandL
  getGripPoints_movedFistHandL handedness_examples presentAndFist_def Let_def
  DUEL_AUTO_IGNITE_TIME_def FIST_LOSS_GRACE_PERIOD_def smoothVelocity_def getDistance_level

lemma swing_run:
  "runDuelPlayer (initialPlayer 1 ''#00ffff'') swingFrames =
     Some ((initialPlayer 1 ''#00ffff'')
       \<lparr>swordState := ACTIVE, swordProgress := 1, swordHand := Some Left, lastFistTime := 1532,
        velocity := 3/200, prevHandPos := Some \<lparr>x = 0.75, y = 0.5\<rparr>\<rparr>)"
  by (simp add: swingFrames_def processDuelPlayer_def initialPlayer_def example_simps)

lemma grip_run:
  "runSoloPlayer initialGame gripFrames =
     Some (initialGame\<lparr>swordHandRef := Some Left, gameStateRef := HILT_FORMING,
        gameState := HILT_FORMING, lastFistTimeRef := 1000\<rparr>)"
  by (simp add: gripFrames_def processSoloPlayer_def initialGame_def example_simps)

lemma release_run:
  "runSoloPlayer initialGame releaseFrames =
     Some (initialGame\<lparr>swordHandRef := Some Left, gameStateRef := HILT_FORMING,
        gameState := HILT_FORMING, lastFistTimeRef := 1000\<rparr>)"
  by (simp add: releaseFrames_def processSoloPlayer_def soloHeld_def initialGame_def example_simps)

lemma hilt_hold_run:
  "swordState p = HILT_FORMING \<Longrightarrow> swordHand p = Some Left \<Longrightarrow>
   \<forall>f \<in> set frames. snd f = [fistHandL] \<and> fst f - lastFistTime p \<le> 400 \<Longrightarrow>
   runDuelPlayer p frames = Some (p\<lparr>swordProgress := swordProgress p + 0.05 * real (length frames)\<rparr>)"
proof (induction frames arbitrary: p)
  case Nil
  then show ?case by simp
next
  case (Cons f frames)
  have step: "processDuelPlayer (fst f) p (snd f) = Some (p\<lparr>swordProgress := swordProgress p + 0.05\<rparr>)"
    using Cons.prems by (simp add: processDuelPlayer_def example_simps)
  have "runDuelPlayer (p\<lparr>swordProgress := swordProgress p + 0.05\<rparr>) frames =
        Some (p\<lparr>swordProgress := swordProgress p + 0.05\<rparr>
          \<lparr>swordProgress := swordProgress (p\<lparr>swordProgress := swordProgress p + 0.05\<rparr>) + 0.05 * real (length frames)\<rparr>)"
    using Cons.prems by (intro Cons.IH) simp_all
  with step show ?case by (simp add: algebra_simps)
qed

lemma ignite_run:
  "runDuelPlayer (initialPlayer 1 ''#00ffff'') igniteFrames =
     Some ((initialPlayer 1 ''#00ffff'')
       \<lparr>swordState := HILT_FORMING, swordProgress := 11/10, swordHand := Some Left, lastFistTime := 1000\<rparr>)"
proof -
  let ?p = "(initialPlayer 1 ''#00ffff'')
       \<lparr>swordHand := Some Left, swordState := HILT_FORMING, lastFistTime := 1000, swordProgress := 0\<rparr>"
  have first: "processDuelPlayer 1000 (initialPlayer 1 ''#00ffff'') [fistHandL] = Some ?p"
    by (simp add: processDuelPlayer_def initialPlayer_def example_simps)
  have rest: "runDuelPlayer ?p (map (\<lambda>k. (1000 + 16 * k, [fistHandL])) [1..22]) =
      Some (?p\<lparr>swordProgress := swordProgress ?p + 0.05 * real (length (map (\<lambda>k. (1000 + 16 * k, [fistHandL])) [1..22::int]))\<rparr>)"
    by (rule hilt_hold_run) auto
  show ?thesis
    unfolding igniteFrames_def using first rest by (simp add: initialPlayer_def)
qed

text \<open>
  Claim C1, as amended. Along every sequence of frames from the initial state, a sequence
  of well-formed frames runs to the end, and at every point reached: in solo play the
  progress lies in \<open>[0, 1]\<close> and is 0 in \<open>IDLE\<close>; in a duel the progress is never negative,
  is 0 in \<open>IDLE\<close>, is at most 1 in every state other than \<open>HILT_FORMING\<close>, and in
  \<open>HILT_FORMING\<close> is at most 0.05 per frame run.
\<close>

theorem sword_progress_bounds:
  "(\<forall>g. runSoloPlayer initialGame frames = Some g \<longrightarrow>
        0 \<le> swordProgressRef g \<and> swordProgressRef g \<le> 1 \<and>
        (gameStateRef g = IDLE \<longrightarrow> swordProgressRef g = 0)) \<and>
   (\<forall>p. runDuelPlayer (initialPlayer i c) frames = Some p \<longrightarrow>
        0 \<le> swordProgress p \<and>
        (swordState p = IDLE \<longrightarrow> swordProgress p = 0) \<and>
        (swordState p \<noteq> HILT_FORMING \<longrightarrow> swordProgress p \<le> 1) \<and>
        (swordState p = HILT_FORMING \<longrightarrow> swordProgress p \<le> 0.05 * real (length frames))) \<and>
   (list_all wellFormedFrame frames \<longrightarrow>
        (\<exists>g. runSoloPlayer initialGame frames = Some g) \<and>
        (\<exists>p. runDuelPlayer (initialPlayer i c) frames = Some p))"
proof (intro conjI allI impI)
  fix g assume "runSoloPlayer initialGame frames = Some g"
  moreover have "soloBounds initialGame" by (simp add: soloBounds_def initialGame_def)
  ultimately have "soloBounds g" by (rule runSoloPlayer_bounds)
  then show "0 \<le> swordProgressRef g" "swordProgressRef g \<le> 1"
    "gameStateRef g = IDLE \<Longrightarrow> swordProgressRef g = 0"
    by (simp_all add: soloBounds_def)
next
  fix p assume run: "runDuelPlayer (initialPlayer i c) frames = Some p"
  have "duelBounds (initialPlayer i c)" by (simp add: duelBounds_def initialPlayer_def)
  with run have "duelBounds p" by (rule runDuelPlayer_bounds)
  then show "0 \<le> swordProgress p" "swordState p = IDLE \<Longrightarrow> swordProgress p = 0"
    "swordState p \<noteq> HILT_FORMING \<Longrightarrow> swordProgress p \<le> 1"
    by (simp_all add: duelBounds_def)
  have "duelBudget 0 (initialPlayer i c)" by (simp add: duelBudget_def initialPlayer_def)
  with run have "duelBudget (0 + length frames) p" by (rule runDuelPlayer_budget)
  then show "swordState p = HILT_FORMING \<Longrightarrow> swordProgress p \<le> 0.05 * real (length frames)"
    by (simp add: duelBudget_def)
next
  assume "list_all wellFormedFrame frames"
  then show "\<exists>g. runSoloPlayer initialGame frames = Some g"
    "\<exists>p. runDuelPlayer (initialPlayer i c) frames = Some p"
    by (rule runSoloPlayer_total, rule runDuelPlayer_total)
qed

theorem sword_progress_bounds_witness:
  "list_all wellFormedFrame swingFrames \<and>
   (\<exists>g. runSoloPlayer initialGame swingFrames = Some g \<and>
        0 \<le> swordProgressRef g \<and> swordProgressRef g \<le> 1) \<and>
   (\<exists>p. runDuelPlayer (initialPlayer 1 ''#00ffff'') swingFrames = Some p \<and>
        swordState p = ACTIVE \<and> 0 \<le> swordProgress p \<and> swordProgress p \<le> 1) \<and>
   (\<exists>g. runSoloPlayer initialGame [] = Some g \<and> gameStateRef g = IDLE \<and> swordProgressRef g = 0) \<and>
   (\<exists>p. runDuelPlayer (initialPlayer 1 ''#00ffff'') [] = Some p \<and>
        swordState p = IDLE \<and> swordProgress p = 0) \<and>
   (\<exists>p. runDuelPlayer (initialPlayer 1 ''#00ffff'') igniteFrames = Some p \<and>
        swordState p = HILT_FORMING \<and> swordProgress p \<le> 0.05 * real (length igniteFrames))"
proof -
  have wf: "list_all wellFormedFrame swingFrames"
    by (simp add: swingFrames_def wellFormedFrame_def length_examples)
  have act: "\<forall>p. runDuelPlayer (initialPlayer 1 ''#00ffff'') swingFrames = Some p \<longrightarrow>
                 swordState p = ACTIVE"
    using swing_run by simp
  have swing: "(\<exists>g. runSoloPlayer initialGame swingFrames = Some g \<and>
        0 \<le> swordProgressRef g \<and> swordProgressRef g \<le> 1) \<and>
   (\<exists>p. runDuelPlayer (initialPlayer 1 ''#00ffff'') swingFrames = Some p \<and>
        swordState p = ACTIVE \<and> 0 \<le> swordProgress p \<and> swordProgress p \<le> 1)"
    using sword_progress_bounds [of swingFrames 1 "''#00ffff''"] wf act
    by (simp add: GameState.distinct) blast
  have idle: "gameStateRef initialGame = IDLE" "swordState (initialPlayer 1 ''#00ffff'') = IDLE"
    by (simp_all add: initialGame_def initialPlayer_def)
  have start: "(\<exists>g. runSoloPlayer initialGame [] = Some g \<and> gameStateRef g = IDLE \<and>
        swordProgressRef g = 0) \<and>
   (\<exists>p. runDuelPlayer (initialPlayer 1 ''#00ffff'') [] = Some p \<and>
        swordState p = IDLE \<and> swordProgress p = 0)"
    using sword_progress_bounds [of "[]" 1 "''#00ffff''"] idle by simp
  have hilt: "\<forall>p. runDuelPlayer (initialPlayer 1 ''#00ffff'') igniteFrames = Some p \<longrightarrow>
                 swordState p = HILT_FORMING"
    using ignite_run by simp
  have "runDuelPlayer (initialPlayer 1 ''#00ffff'') igniteFrames \<noteq> None"
    using ignite_run by simp
  then have ignite: "\<exists>p. runDuelPlayer (initialPlayer 1 ''#00ffff'') igniteFrames = Some p \<and>
        swordState p = HILT_FORMING \<and> swordProgress p \<le> 0.05 * real (length igniteFrames)"
    using sword_progress_bounds [of igniteFrames 1 "''#00ffff''"] hilt by blast
  from wf swing start ignite show ?thesis by blast
qed

text \<open>
  Claim C1 as stated fails in a duel: from the initial player, one frame that starts the grip
  at time 1000 and 22 further frames 16 ms apart with the fist held (the last at 1352, still
  within 400 ms of the grip) leave the player in \<open>HILT_FORMING\<close> with progress 1.1.
\<close>

theorem duel_hilt_progress_exceeds_one:
  "map_option swordState (runDuelPlayer (initialPlayer 1 ''#00ffff'') igniteFrames)
     = Some HILT_FORMING \<and>
   map_option swordProgress (runDuelPlayer (initialPlayer 1 ''#00ffff'') igniteFrames)
     = Some (11 / 10)"
  using ignite_run by simp

lemma soloHeld_release:
  assumes "gameStateRef g = HILT_FORMING" "presentAndFist sh = Some False"
    "soloHeld now sh fh g = Some g'"
  shows "swordHandRef g' = swordHandRef g \<and> lastFistTimeRef g' = lastFistTimeRef g \<and>
         (if now - lastFistTimeRef g > 500
          then gameStateRef g' = DISSOLVING \<and> swordProgressRef g' = swordProgressRef g
          else gameStateRef g' = HILT_FORMING \<or> gameStateRef g' = CASTING)"
  using assms
  by (auto simp: soloHeld_def Let_def CASTING_START_DIST_def CASTING_COMPLETE_DIST_def
      split: bind_splits option.splits if_splits bool.splits)

text \<open>
  Claim C4, as amended. In a duel, a player in \<open>HILT_FORMING\<close> whose bound hand is absent or
  is not a fist goes to \<open>IDLE\<close> in that frame, unbound and with progress 0. In solo play the
  actor does not go to \<open>IDLE\<close> in that frame and keeps its bound hand: once more than
  500 ms have passed since the last confirmed grip it goes to \<open>DISSOLVING\<close> with its progress
  unchanged, and before that it stays in \<open>HILT_FORMING\<close> or enters \<open>CASTING\<close>.
\<close>

theorem hilt_release:
  "(swordState p = HILT_FORMING \<and>
    presentAndFist (find (\<lambda>h. Some (handedness h) = swordHand p) myHands) = Some False \<longrightarrow>
      processDuelPlayer now p myHands = Some (p\<lparr>swordState := IDLE, swordHand := None, swordProgress := 0\<rparr>)) \<and>
   (gameStateRef g = HILT_FORMING \<and>
    presentAndFist (find (\<lambda>h. Some (handedness h) = swordHandRef g) hands) = Some False \<and>
    processSoloPlayer now hands g = Some g' \<longrightarrow>
      gameStateRef g' \<noteq> IDLE \<and> swordHandRef g' = swordHandRef g \<and>
      (if now - lastFistTimeRef g > 500
       then gameStateRef g' = DISSOLVING \<and> swordProgressRef g' = swordProgressRef g
       else gameStateRef g' = HILT_FORMING \<or> gameStateRef g' = CASTING))"
proof (intro conjI impI)
  assume "swordState p = HILT_FORMING \<and>
    presentAndFist (find (\<lambda>h. Some (handedness h) = swordHand p) myHands) = Some False"
  then show "processDuelPlayer now p myHands = Some (p\<lparr>swordState := IDLE, swordHand := None, swordProgress := 0\<rparr>)"
    by (clarsimp simp: processDuelPlayer_def Let_def)
next
  assume a: "gameStateRef g = HILT_FORMING \<and>
    presentAndFist (find (\<lambda>h. Some (handedness h) = swordHandRef g) hands) = Some False \<and>
    processSoloPlayer now hands g = Some g'"
  then have "soloHeld now (find (\<lambda>h. Some (handedness h) = swordHandRef g) hands)
      (find (\<lambda>h. Some (handedness h) \<noteq> swordHandRef g) hands) g = Some g'"
    by (clarsimp simp: processSoloPlayer_def Let_def)
  from soloHeld_release [OF _ _ this] a
  have r: "swordHandRef g' = swordHandRef g \<and> lastFistTimeRef g' = lastFistTimeRef g \<and>
         (if now - lastFistTimeRef g > 500
          then gameStateRef g' = DISSOLVING \<and> swordProgressRef g' = swordProgressRef g
          else gameStateRef g' = HILT_FORMING \<or> gameStateRef g' = CASTING)" by simp
  then show "gameStateRef g' \<noteq> IDLE" by (auto split: if_splits)
  from r show "swordHandRef g' = swordHandRef g" by simp
  from r show "if now - lastFistTimeRef g > 500
       then gameStateRef g' = DISSOLVING \<and> swordProgressRef g' = swordProgressRef g
       else gameStateRef g' = HILT_FORMING \<or> gameStateRef g' = CASTING" by simp
qed


theorem hilt_release_witness:
  "swordState hiltPlayer = HILT_FORMING \<and>
   presentAndFist (find (\<lambda>h. Some (handedness h) = swordHand hiltPlayer) [openHandL]) = Some False \<and>
   processDuelPlayer 1016 hiltPlayer [openHandL]
     = Some (hiltPlayer\<lparr>swordState := IDLE, swordHand := None, swordProgress := 0\<rparr>) \<and>
   gameStateRef hiltGame = HILT_FORMING \<and>
   presentAndFist (find (\<lambda>h. Some (handedness h) = swordHandRef hiltGame) [openHandL]) = Some False \<and>
   processSoloPlayer 1016 [openHandL] hiltGame = Some hiltGame \<and>
   gameStateRef hiltGame \<noteq> IDLE \<and>
   presentAndFist (find (\<lambda>h. Some (handedness h) = swordHandRef hiltGame) []) = Some False \<and>
   processSoloPlayer 1600 [] hiltGame
     = Some (hiltGame\<lparr>gameStateRef := DISSOLVING, gameState := DISSOLVING\<rparr>) \<and>
   gameStateRef (hiltGame\<lparr>gameStateRef := DISSOLVING, gameState := DISSOLVING\<rparr>) = DISSOLVING"
proof -
  have duel: "swordState hiltPlayer = HILT_FORMING"
    "presentAndFist (find (\<lambda>h. Some (handedness h) = swordHand hiltPlayer) [openHandL]) = Some False"
    by (simp_all add: hiltPlayer_def example_simps)
  have solo: "gameStateRef hiltGame = HILT_FORMING"
    "presentAndFist (find (\<lambda>h. Some (handedness h) = swordHandRef hiltGame) [openHandL]) = Some False"
    "processSoloPlayer 1016 [openHandL] hiltGame = Some hiltGame"
    "presentAndFist (find (\<lambda>h. Some (handedness h) = swordHandRef hiltGame) []) = Some False"
    "processSoloPlayer 1600 [] hiltGame
       = Some (hiltGame\<lparr>gameStateRef := DISSOLVING, gameState := DISSOLVING\<rparr>)"
    by (simp_all add: hiltGame_def processSoloPlayer_def soloHeld_def example_simps)
  from hilt_release [of hiltPlayer "[openHandL]" 1016 hiltGame "[openHandL]" hiltGame]
    hilt_release [of hiltPlayer "[openHandL]" 1600 hiltGame "[]"
      "hiltGame\<lparr>gameStateRef := DISSOLVING, gameState := DISSOLVING\<rparr>"]
    duel solo
  show ?thesis by simp
qed

text \<open>
  Claim C4 as stated fails in solo play: after a grip at time 1000, a frame at 1016 in which
  the bound hand is visible but open leaves the actor in \<open>HILT_FORMING\<close> with its hand
  still bound.
\<close>

theorem solo_hilt_release_stays:
  "map_option gameStateRef (runSoloPlayer initialGame releaseFrames) = Some HILT_FORMING \<and>
   map_option swordHandRef (runSoloPlayer initialGame releaseFrames) = Some (Some Left)"
  by (simp add: release_run)

section \<open>Facts about the reset\<close>

text \<open>
  Claim C2, as amended. \<open>resetGame\<close> (and \<open>toggleMode\<close>, which calls it) empties the enemy
  list, puts the solo state at \<open>IDLE\<close> and the match state at \<open>DUEL_WAITING\<close>, and for each
  duel player sets the sword state to \<open>IDLE\<close>, the progress to 0, the bound hand to none,
  the trail to empty, the hit points to 100 and both timestamps to 0, while the player's
  velocity and previous hilt position keep their values.
\<close>

theorem resetGame_effect:
  "playerReset (getPlayer r g) (getPlayer r (resetGame g)) \<and>
   enemiesRef (resetGame g) = [] \<and>
   gameStateRef (resetGame g) = IDLE \<and>
   duelStateRef (resetGame g) = DUEL_WAITING \<and>
   playerReset (getPlayer r g) (getPlayer r (toggleMode g)) \<and>
   enemiesRef (toggleMode g) = [] \<and>
   gameStateRef (toggleMode g) = IDLE \<and>
   duelStateRef (toggleMode g) = DUEL_WAITING"
  by (cases r) (simp_all add: playerReset_def getPlayer_def resetGame_def resetPlayer_def toggleMode_def Let_def)

text \<open>
  Claim C2 as stated fails: player 1 grips at 1000, ignites at 1500 and swings (the hilt
  moves by 0.1 between the frames at 1516 and 1532); after the reset the velocity is still
  0.015 and the previous hilt position is still set.
\<close>

theorem resetGame_keeps_velocity:
  "map_option (velocity \<circ> player1Ref \<circ> resetGame) swingGame = Some (3/200) \<and>
   map_option (prevHandPos \<circ> player1Ref \<circ> resetGame) swingGame = Some (Some \<lparr>x = 0.75, y = 0.5\<rparr>)"
  using swing_run
  by (simp add: swingGame_def initialGame_def resetGame_def resetPlayer_def initialPlayer_def)

lemma resetPlayer_bounds: "duelBounds (resetPlayer p)"
  by (simp add: duelBounds_def resetPlayer_def)

lemma processDuelPlayer_handBound:
  assumes "processDuelPlayer now p hs = Some p'" "handBound p"
  shows "handBound p'"
  using assms
  by (cases "swordState p")
     (auto simp: processDuelPlayer_def handBound_def Let_def
           split: bind_splits option.splits if_splits)

lemma resetPlayer_handBound: "handBound (resetPlayer p)"
  by (simp add: handBound_def resetPlayer_def)

lemma soloHeld_handBound:
  assumes "soloHeld now sh fh g = Some g'" "soloHandBound g" "gameStateRef g \<noteq> IDLE"
  shows "soloHandBound g'"
  using assms
  by (auto simp: soloHeld_def soloHandBound_def Let_def
           split: bind_splits option.splits if_splits bool.splits)

lemma processSoloPlayer_handBound:
  assumes "processSoloPlayer now hs g = Some g'" "soloHandBound g"
  shows "soloHandBound g'"
proof (cases "gameStateRef g")
  case IDLE
  with assms show ?thesis
    by (auto simp: processSoloPlayer_def soloHandBound_def Let_def split: bind_splits option.splits)
next
  case DISSOLVING
  with assms show ?thesis
    by (auto simp: processSoloPlayer_def soloHandBound_def Let_def split: if_splits)
qed (use assms in \<open>auto simp: processSoloPlayer_def Let_def intro: soloHeld_handBound\<close>)

text \<open>
  Claim C3. The frame updates of both machines and the reset of a duel player keep
  "hand bound iff not \<open>IDLE\<close>" (the four lemmas above). The reset of the solo actor does not:
  after a single grip frame, which binds the left hand, \<open>resetGame\<close> puts the solo state
  at \<open>IDLE\<close> and leaves the left hand bound.
\<close>

theorem resetGame_leaves_solo_hand_bound:
  "map_option (gameStateRef \<circ> resetGame) (runSoloPlayer initialGame gripFrames) = Some IDLE \<and>
   map_option (swordHandRef \<circ> resetGame) (runSoloPlayer initialGame gripFrames) = Some (Some Left)"
  by (simp add: grip_run resetGame_def)

end
